theory Spec2Isabelle
  imports Main "HOL-Library.Word"
begin

unbundle bit_operations_syntax

section \<open>Constants of the DFU class protocol\<close>

text \<open>
  Modelled from the spec: the header \<^verbatim>\<open>dfu.h\<close> that declares the state and status codes is
  not part of the sources. The spec names the eleven device states in protocol order
  (runtime-idle first, dfu-error last) and indexes the status codes 0 to 15, as section 6.1.2
  of the DFU 1.0 class specification cited by \<^verbatim>\<open>dfu.c\<close> does. The source uses two spellings
  for the state codes (\<^verbatim>\<open>STATE_DFU_IDLE\<close> in the label table and the decoder,
  \<^verbatim>\<open>DFU_STATE_dfuIDLE\<close> in the orchestrator); both are kept.
\<close>

definition STATE_APP_IDLE :: int where "STATE_APP_IDLE = 0"
definition STATE_APP_DETACH :: int where "STATE_APP_DETACH = 1"
definition STATE_DFU_IDLE :: int where "STATE_DFU_IDLE = 2"
definition STATE_DFU_DOWNLOAD_SYNC :: int where "STATE_DFU_DOWNLOAD_SYNC = 3"
definition STATE_DFU_DOWNLOAD_BUSY :: int where "STATE_DFU_DOWNLOAD_BUSY = 4"
definition STATE_DFU_DOWNLOAD_IDLE :: int where "STATE_DFU_DOWNLOAD_IDLE = 5"
definition STATE_DFU_MANIFEST_SYNC :: int where "STATE_DFU_MANIFEST_SYNC = 6"
definition STATE_DFU_MANIFEST :: int where "STATE_DFU_MANIFEST = 7"
definition STATE_DFU_MANIFEST_WAIT_RESET :: int where "STATE_DFU_MANIFEST_WAIT_RESET = 8"
definition STATE_DFU_UPLOAD_IDLE :: int where "STATE_DFU_UPLOAD_IDLE = 9"
definition STATE_DFU_ERROR :: int where "STATE_DFU_ERROR = 10"

lemmas STATE_defs =
  STATE_APP_IDLE_def STATE_APP_DETACH_def STATE_DFU_IDLE_def STATE_DFU_DOWNLOAD_SYNC_def
  STATE_DFU_DOWNLOAD_BUSY_def STATE_DFU_DOWNLOAD_IDLE_def STATE_DFU_MANIFEST_SYNC_def
  STATE_DFU_MANIFEST_def STATE_DFU_MANIFEST_WAIT_RESET_def STATE_DFU_UPLOAD_IDLE_def
  STATE_DFU_ERROR_def

definition DFU_STATE_appIDLE :: int where "DFU_STATE_appIDLE = 0"
definition DFU_STATE_appDETACH :: int where "DFU_STATE_appDETACH = 1"
definition DFU_STATE_dfuIDLE :: int where "DFU_STATE_dfuIDLE = 2"
definition DFU_STATE_dfuDNLOAD_IDLE :: int where "DFU_STATE_dfuDNLOAD_IDLE = 5"
definition DFU_STATE_dfuUPLOAD_IDLE :: int where "DFU_STATE_dfuUPLOAD_IDLE = 9"
definition DFU_STATE_dfuERROR :: int where "DFU_STATE_dfuERROR = 10"

lemmas DFU_STATE_defs =
  DFU_STATE_appIDLE_def DFU_STATE_appDETACH_def DFU_STATE_dfuIDLE_def
  DFU_STATE_dfuDNLOAD_IDLE_def DFU_STATE_dfuUPLOAD_IDLE_def DFU_STATE_dfuERROR_def

definition DFU_STATUS_OK :: int where "DFU_STATUS_OK = 0"
definition DFU_STATUS_ERROR_UNKNOWN :: int where "DFU_STATUS_ERROR_UNKNOWN = 14"
definition DFU_STATUS_errSTALLEDPKT :: int where "DFU_STATUS_errSTALLEDPKT = 15"

lemmas DFU_STATUS_defs =
  DFU_STATUS_OK_def DFU_STATUS_ERROR_UNKNOWN_def DFU_STATUS_errSTALLEDPKT_def

section \<open>Diagnostic tables\<close>

text \<open>
  \<^verbatim>\<open>dfu_state_to_string\<close> is a switch over the eleven state codes; its result is a C string
  or the null pointer, modelled as \<open>None\<close>. The cases are tried in the order of the source.
\<close>

definition dfu_state_to_string :: "int \<Rightarrow> string option" where
  "dfu_state_to_string state =
     (if state = STATE_APP_IDLE then Some ''appIDLE''
      else if state = STATE_APP_DETACH then Some ''appDETACH''
      else if state = STATE_DFU_IDLE then Some ''dfuIDLE''
      else if state = STATE_DFU_DOWNLOAD_SYNC then Some ''dfuDNLOAD-SYNC''
      else if state = STATE_DFU_DOWNLOAD_BUSY then Some ''dfuDNBUSY''
      else if state = STATE_DFU_DOWNLOAD_IDLE then Some ''dfuDNLOAD-IDLE''
      else if state = STATE_DFU_MANIFEST_SYNC then Some ''dfuMANIFEST-SYNC''
      else if state = STATE_DFU_MANIFEST then Some ''dfuMANIFEST''
      else if state = STATE_DFU_MANIFEST_WAIT_RESET then Some ''dfuMANIFEST-WAIT-RESET''
      else if state = STATE_DFU_UPLOAD_IDLE then Some ''dfuUPLOAD-IDLE''
      else if state = STATE_DFU_ERROR then Some ''dfuERROR''
      else None)"

text \<open>The sixteen sentences of \<^verbatim>\<open>dfu_status_names\<close>, in table order.\<close>

definition dfu_status_names :: "string list" where
  "dfu_status_names =
     [''No error condition is present'',
      ''File is not targeted for use by this device'',
      ''File is for this device but fails some vendor-specific test'',
      ''Device is unable to write memory'',
      ''Memory erase function failed'',
      ''Memory erase check failed'',
      ''Program memory function failed'',
      ''Programmed memory failed verification'',
      ''Cannot program memory due to received address that is out of range'',
      ''Received DFU_DNLOAD with wLength = 0, but device does not think that it has all data yet'',
      ''Device'' @ [CHR 0x27] @ ''s firmware is corrupt. It cannot return to run-time (non-DFU) operations'',
      ''iString indicates a vendor specific error'',
      ''Device detected unexpected USB reset signalling'',
      ''Device detected unexpected power on reset'',
      ''Something went wrong, but the device does not know what it was'',
      ''Device stalled an unexpected request'']"

text \<open>
  Reading a C array at a signed index. Inside the array the read yields the element; outside
  it the C program reads memory that is not part of the table, which the model reports as
  \<open>None\<close> instead of inventing a value.
\<close>

definition array_read :: "'a list \<Rightarrow> int \<Rightarrow> 'a option" where
  "array_read xs i = (if 0 \<le> i \<and> i < int (length xs) then Some (xs ! nat i) else None)"

definition dfu_status_to_string :: "int \<Rightarrow> string option" where
  "dfu_status_to_string status =
     (if status > DFU_STATUS_errSTALLEDPKT then Some ''INVALID''
      else array_read dfu_status_names status)"

section \<open>Data model of the transport and of the orchestrator\<close>

type_synonym byte = "8 word"

text \<open>
  Modelled from the spec: the request codes of \<^verbatim>\<open>dfu.h\<close>, which is not part of the
  sources, are those of the wire protocol table (GETSTATUS 3, CLRSTATUS 4, ABORT 6). A
  \<open>usb_request\<close> is one control transfer as \<^verbatim>\<open>libusb_control_transfer\<close> receives it;
  the bits of \<open>bmRequestType\<close> are those of \<^verbatim>\<open>libusb.h\<close>.
\<close>

record usb_request =
  bmRequestType :: byte
  bRequest :: byte
  wValue :: "16 word"
  wIndex :: "16 word"
  wLength :: "16 word"

definition LIBUSB_ENDPOINT_IN :: byte where "LIBUSB_ENDPOINT_IN = 0x80"
definition LIBUSB_ENDPOINT_OUT :: byte where "LIBUSB_ENDPOINT_OUT = 0x00"
definition LIBUSB_REQUEST_TYPE_CLASS :: byte where "LIBUSB_REQUEST_TYPE_CLASS = 0x20"
definition LIBUSB_RECIPIENT_INTERFACE :: byte where "LIBUSB_RECIPIENT_INTERFACE = 0x01"

definition DFU_GETSTATUS :: byte where "DFU_GETSTATUS = 3"
definition DFU_CLRSTATUS :: byte where "DFU_CLRSTATUS = 4"
definition DFU_ABORT :: byte where "DFU_ABORT = 6"

text \<open>
  The structures \<^verbatim>\<open>dfu_if\<close>, \<^verbatim>\<open>dfu_status\<close> and \<^verbatim>\<open>dfu_file\<close> are declared in headers
  that are not part of the sources; each is given the fields that \<^verbatim>\<open>dfu.c\<close> reads or
  writes. In the interface descriptor the null handle is \<open>None\<close>, and \<open>wTransferSize\<close> is
  the functional descriptor's field as a number, that is, after \<^verbatim>\<open>libusb_le16_to_cpu\<close>.
  The status record holds the three bytes as numbers from 0 to 255 and the poll timeout as an
  unsigned 32-bit integer.
\<close>

record dfu_if =
  vendor :: "16 word"
  product :: "16 word"
  intf :: byte
  altsetting :: byte
  quirks :: "16 word"
  bMaxPacketSize0 :: byte
  wTransferSize :: "16 word"
  dev_handle :: "nat option"

record dfu_status =
  bStatus :: int
  bwPollTimeout :: "32 word"
  bState :: int
  iString :: int

record dfu_file =
  idVendor :: "16 word"
  idProduct :: "16 word"

text \<open>
  The two constants of \<^verbatim>\<open>quirks.h\<close>, which is not part of the sources, are parameters:
  the flag that selects the poll-timeout override and the timeout substituted for the
  device's own.
\<close>

record quirks_h =
  QUIRK_POLLTIMEOUT :: "16 word"
  DEFAULT_POLLTIMEOUT :: "32 word"

text \<open>
  Every call that leaves \<^verbatim>\<open>dfu.c\<close> is recorded, in program order, as an event. A message
  printed to the standard error stream is recorded with its format string and its numeric
  arguments.
\<close>

datatype event =
    Call_libusb_init
  | Call_dfu_load_file
  | Call_probe_devices
  | Call_libusb_open int "nat option"
  | Call_libusb_claim_interface
  | Call_libusb_set_interface_alt_setting
  | Call_libusb_control_transfer usb_request
  | Call_usleep "32 word"
  | Call_fprintf string "int list"
  | Call_errx string
  | Call_dfuload_do_dnload int
  | Call_libusb_close
  | Call_libusb_exit

text \<open>
  The collaborators that are not in \<^verbatim>\<open>dfu.c\<close>: what each returns. Those that
  \<^verbatim>\<open>dfu_flash\<close> calls once are given by their result; the device answers a control transfer
  with a return value and the contents of the receive buffer, and the answer may depend on
  everything that happened before.
\<close>

record env =
  libusb_init :: int
  dfu_load_file :: "int \<Rightarrow> dfu_file"
  probe_devices :: "int \<Rightarrow> int \<Rightarrow> dfu_if list"
  libusb_open :: "int \<times> nat option"
  libusb_claim_interface :: int
  libusb_set_interface_alt_setting :: int
  libusb_control_transfer :: "event list \<Rightarrow> usb_request \<Rightarrow> int \<times> byte list"
  dfuload_do_dnload :: "int \<Rightarrow> int"

section \<open>Request codec and status decoder\<close>

text \<open>The setup packet that \<^verbatim>\<open>dfu_get_status\<close> passes to the transport.\<close>

definition get_status_request :: "dfu_if \<Rightarrow> usb_request" where
  "get_status_request dif =
     \<lparr>bmRequestType =
        LIBUSB_ENDPOINT_IN OR LIBUSB_REQUEST_TYPE_CLASS OR LIBUSB_RECIPIENT_INTERFACE,
      bRequest = DFU_GETSTATUS, wValue = 0, wIndex = ucast (intf dif), wLength = 6\<rparr>"

text \<open>
  \<^verbatim>\<open>dfu_get_status\<close>: the record is first set to its defaults, then overwritten when the
  transfer returned 6. The return value is the transport's. The buffer is read at the
  indices 0 to 5 only, and only in that case.
\<close>

definition dfu_get_status ::
  "quirks_h \<Rightarrow> env \<Rightarrow> dfu_if \<Rightarrow> event list \<Rightarrow> int \<times> dfu_status \<times> event list" where
  "dfu_get_status q e dif tr =
     (let status0 = \<lparr>bStatus = DFU_STATUS_ERROR_UNKNOWN, bwPollTimeout = 0,
                      bState = STATE_DFU_ERROR, iString = 0\<rparr>;
          req = get_status_request dif;
          (result, buffer) = libusb_control_transfer e tr req;
          status =
            (if 6 = result then
               \<lparr>bStatus = uint (buffer ! 0),
                bwPollTimeout =
                  (if quirks dif AND QUIRK_POLLTIMEOUT q \<noteq> 0 then DEFAULT_POLLTIMEOUT q
                   else push_bit 16 (0xff AND ucast (buffer ! 3)) OR
                        push_bit 8 (0xff AND ucast (buffer ! 2)) OR
                        (0xff AND ucast (buffer ! 1))),
                bState = uint (buffer ! 4),
                iString = uint (buffer ! 5)\<rparr>
             else status0)
      in (result, status, tr @ [Call_libusb_control_transfer req]))"

definition dfu_clear_status :: "env \<Rightarrow> dfu_if \<Rightarrow> event list \<Rightarrow> int \<times> event list" where
  "dfu_clear_status e dif tr =
     (let req = \<lparr>bmRequestType =
                    LIBUSB_ENDPOINT_OUT OR LIBUSB_REQUEST_TYPE_CLASS OR LIBUSB_RECIPIENT_INTERFACE,
                  bRequest = DFU_CLRSTATUS, wValue = 0, wIndex = ucast (intf dif), wLength = 0\<rparr>
      in (fst (libusb_control_transfer e tr req), tr @ [Call_libusb_control_transfer req]))"

definition dfu_abort :: "env \<Rightarrow> dfu_if \<Rightarrow> event list \<Rightarrow> int \<times> event list" where
  "dfu_abort e dif tr =
     (let req = \<lparr>bmRequestType =
                    LIBUSB_ENDPOINT_OUT OR LIBUSB_REQUEST_TYPE_CLASS OR LIBUSB_RECIPIENT_INTERFACE,
                  bRequest = DFU_ABORT, wValue = 0, wIndex = ucast (intf dif), wLength = 0\<rparr>
      in (fst (libusb_control_transfer e tr req), tr @ [Call_libusb_control_transfer req]))"

section \<open>Flashing orchestrator\<close>

text \<open>
  The process-wide variables that \<^verbatim>\<open>dfu_flash\<close> writes: the two match criteria it adopts
  from the firmware file and the list of matched interfaces (\<^verbatim>\<open>dfu_root\<close> and its
  \<^verbatim>\<open>next\<close> links).
\<close>

record globals =
  match_vendor :: int
  match_product :: int
  dfu_root :: "dfu_if list"

text \<open>
  Modelled from the spec: \<^verbatim>\<open>errx\<close> is not defined in \<^verbatim>\<open>dfu.c\<close>; it prints its message
  and terminates the process with the given exit status, which is the ``terminate process on
  fatal error'' control flow that the spec describes.

  How a call of \<^verbatim>\<open>dfu_flash\<close> ends: it returns \<open>ret\<close> and has stored \<open>finished\<close>, or
  \<^verbatim>\<open>errx\<close> has terminated the process with an exit status. A call that never ends has
  no outcome. The error numbers and \<^verbatim>\<open>EX_IOERR\<close> have their values of \<^verbatim>\<open>errno.h\<close> and
  \<^verbatim>\<open>sysexits.h\<close> on Linux.
\<close>

datatype outcome = Returned int int | Exited int

definition EIO :: int where "EIO = 5"
definition EFAULT :: int where "EFAULT = 14"
definition ENODEV :: int where "ENODEV = 19"
definition EINVAL :: int where "EINVAL = 22"
definition EX_IOERR :: int where "EX_IOERR = 74"

lemmas errno_defs = EIO_def EFAULT_def ENODEV_def EINVAL_def EX_IOERR_def

text \<open>
  The label \<^verbatim>\<open>status_again\<close>: poll the status, sleep, branch on the state. The two
  \<^verbatim>\<open>goto status_again\<close> are the recursive calls; nothing in the source counts them.
\<close>

partial_function (option) status_again ::
  "quirks_h \<Rightarrow> env \<Rightarrow> dfu_if \<Rightarrow> event list \<Rightarrow> (int \<times> dfu_status \<times> event list) option" where
  "status_again q e root tr =
     (let (ret, status, tr1) = dfu_get_status q e root tr;
          tr2 = (if ret < 0 then tr1 @ [Call_fprintf ''error get_status: %s'' [ret]] else tr1);
          tr3 = tr2 @ [Call_usleep (bwPollTimeout status * 1000)]
      in if bState status = DFU_STATE_appIDLE \<or> bState status = DFU_STATE_appDETACH then
           Some (ret, status, tr3 @ [Call_fprintf ''Device still in Runtime Mode!'' []])
         else if bState status = DFU_STATE_dfuERROR then
           (let (r, tr4) = dfu_clear_status e root tr3;
                tr5 = (if r < 0 then tr4 @ [Call_fprintf ''error clear_status'' []] else tr4)
            in status_again q e root tr5)
         else if bState status = DFU_STATE_dfuDNLOAD_IDLE \<or>
                 bState status = DFU_STATE_dfuUPLOAD_IDLE then
           (let (r, tr4) = dfu_abort e root tr3;
                tr5 = (if r < 0 then tr4 @ [Call_fprintf ''can't send DFU_ABORT'' []] else tr4)
            in status_again q e root tr5)
         else Some (ret, status, tr3))"

text \<open>The label \<^verbatim>\<open>out\<close>: leave the library, store \<open>finished\<close>, return.\<close>

definition flash_out :: "int \<Rightarrow> globals \<Rightarrow> event list \<Rightarrow> outcome \<times> globals \<times> event list" where
  "flash_out ret g tr = (Returned ret (if ret \<noteq> 0 then - 1 else 1), g, tr @ [Call_libusb_exit])"

text \<open>
  The part of \<^verbatim>\<open>dfu_flash\<close> between the end of the poll loop and \<^verbatim>\<open>out\<close>: the extra
  CLRSTATUS and GETSTATUS when the status is not OK, the transfer size, the download, the
  close. \<open>ret\<close> is the value the last GETSTATUS of the loop returned.
\<close>

definition flash_after_poll ::
  "quirks_h \<Rightarrow> env \<Rightarrow> dfu_if \<Rightarrow> globals \<Rightarrow> int \<Rightarrow> dfu_status \<Rightarrow> event list
     \<Rightarrow> outcome \<times> globals \<times> event list" where
  "flash_after_poll q e root g ret status tr =
     (let tr1 =
            (if DFU_STATUS_OK \<noteq> bStatus status then
               (let (r1, t1) = dfu_clear_status e root tr;
                    t2 = (if r1 < 0 then t1 @ [Call_fprintf ''USB communication error'' []]
                          else t1);
                    (r2, status2, t3) = dfu_get_status q e root t2;
                    t4 = (if r2 < 0 then t3 @ [Call_fprintf ''USB communication error'' []]
                          else t3);
                    t5 = (if DFU_STATUS_OK \<noteq> bStatus status2
                          then t4 @ [Call_fprintf ''Status is not OK: %d'' [bStatus status2]]
                          else t4)
                in t5 @ [Call_usleep (bwPollTimeout status2 * 1000)])
             else tr);
          transfer_size0 = (0 :: int);
          func_dfu_transfer_size = uint (wTransferSize root);
          (transfer_size1, tr2) =
            (if func_dfu_transfer_size \<noteq> 0 then
               ((if transfer_size0 = 0 then func_dfu_transfer_size else transfer_size0), tr1)
             else
               (transfer_size0,
                if transfer_size0 = 0
                then tr1 @ [Call_fprintf ''Transfer size must be specified'' []] else tr1));
          transfer_size2 =
            (if transfer_size1 < uint (bMaxPacketSize0 root) then uint (bMaxPacketSize0 root)
             else transfer_size1);
          r = dfuload_do_dnload e transfer_size2;
          tr3 = tr2 @ [Call_dfuload_do_dnload transfer_size2];
          ret2 = (if r < 0 then EFAULT else ret);
          tr4 = tr3 @ [Call_libusb_close]
      in flash_out ret2 (g\<lparr>dfu_root := [root\<lparr>dev_handle := None\<rparr>]\<rparr>) tr4)"

text \<open>Adoption of the file's identifiers as match criteria, where these are unset.\<close>

definition adopt_file_ids :: "dfu_file \<Rightarrow> globals \<Rightarrow> globals" where
  "adopt_file_ids file g =
     (let g1 = (if match_vendor g < 0 \<and> idVendor file \<noteq> 0xffff
                then g\<lparr>match_vendor := uint (idVendor file)\<rparr> else g)
      in if match_product g1 < 0 \<and> idProduct file \<noteq> 0xffff
         then g1\<lparr>match_product := uint (idProduct file)\<rparr> else g1)"

definition dfu_flash ::
  "quirks_h \<Rightarrow> env \<Rightarrow> globals \<Rightarrow> int \<Rightarrow> (outcome \<times> globals \<times> event list) option" where
  "dfu_flash q e g0 fd =
     (let ret = libusb_init e;
          tr0 = [Call_libusb_init];
          g1 = g0\<lparr>dfu_root := []\<rparr>
      in if ret \<noteq> 0 then
           Some (Returned EIO 0, g1,
                 tr0 @ [Call_fprintf ''unable to initialize libusb: %s'' [ret]])
         else
           (let file = dfu_load_file e fd;
                tr1 = tr0 @ [Call_dfu_load_file];
                g2 = adopt_file_ids file g1;
                g3 = g2\<lparr>dfu_root := probe_devices e (match_vendor g2) (match_product g2)\<rparr>;
                tr2 = tr1 @ [Call_probe_devices]
            in case dfu_root g3 of
                 [] \<Rightarrow> Some (flash_out ENODEV g3 tr2)
               | root # rest \<Rightarrow>
                   if rest \<noteq> [] then
                     Some (flash_out ENODEV g3
                       (tr2 @ [Call_fprintf (''More than one DFU capable USB device found! '' @
                                 ''Try `--list' and specify the serial number '' @
                                 ''or disconnect all but one device'' @ [CHR 0x0A]) []]))
                   else if (idVendor file \<noteq> 0xffff \<and> idVendor file \<noteq> vendor root) \<or>
                           (idProduct file \<noteq> 0xffff \<and> idProduct file \<noteq> product root) then
                     Some (flash_out EINVAL g3
                       (tr2 @ [Call_fprintf
                                 (''Error: File ID %04x:%04x does '' @
                                  ''not match device (%04x:%04x)'')
                                 [uint (idVendor file), uint (idProduct file),
                                  uint (vendor root), uint (product root)]]))
                   else
                     (let (ret1, h) = libusb_open e;
                          root1 = root\<lparr>dev_handle := h\<rparr>;
                          g4 = g3\<lparr>dfu_root := [root1]\<rparr>;
                          tr3 = tr2 @ [Call_libusb_open ret1 h]
                      in if ret1 \<noteq> 0 \<or> h = None then
                           Some (Exited EX_IOERR, g4,
                                 tr3 @ [Call_errx ''Cannot open device: %s''])
                         else
                           (let ret2 = libusb_claim_interface e;
                                tr4 = tr3 @ [Call_libusb_claim_interface]
                            in if ret2 < 0 then
                                 Some (Exited EX_IOERR, g4,
                                       tr4 @ [Call_errx ''Cannot claim interface - %s''])
                               else
                                 (let ret3 = libusb_set_interface_alt_setting e;
                                      tr5 = tr4 @ [Call_libusb_set_interface_alt_setting]
                                  in if ret3 < 0 then
                                       Some (Exited EX_IOERR, g4,
                                         tr5 @ [Call_errx ''Cannot set alternate interface: %s''])
                                     else
                                       (case status_again q e root1 tr5 of
                                          None \<Rightarrow> None
                                        | Some (ret4, status, tr6) \<Rightarrow>
                                            Some (flash_after_poll q e root1 g4 ret4 status
                                                    tr6)))))))"

section \<open>Observing a run\<close>

text \<open>
  Whether a device handle is open after a sequence of events: a successful
  \<^verbatim>\<open>libusb_open\<close> (return value 0 and a handle that is not null) opens one,
  \<^verbatim>\<open>libusb_close\<close> closes it, nothing else touches it.
\<close>

definition handle_step :: "bool \<Rightarrow> event \<Rightarrow> bool" where
  "handle_step b ev =
     (case ev of
        Call_libusb_open ret h \<Rightarrow> (if ret = 0 \<and> h \<noteq> None then True else b)
      | Call_libusb_close \<Rightarrow> False
      | _ \<Rightarrow> b)"

definition handle_open :: "event list \<Rightarrow> bool" where
  "handle_open tr = foldl handle_step False tr"

text \<open>
  Counting the GETSTATUS and the CLRSTATUS requests of a run, and the state that the next
  GETSTATUS would decode after a given sequence of events.
\<close>

definition is_request :: "byte \<Rightarrow> event \<Rightarrow> bool" where
  "is_request code ev =
     (case ev of Call_libusb_control_transfer r \<Rightarrow> bRequest r = code | _ \<Rightarrow> False)"

definition polls :: "event list \<Rightarrow> nat" where
  "polls tr = length (filter (is_request DFU_GETSTATUS) tr)"

definition clears :: "event list \<Rightarrow> nat" where
  "clears tr = length (filter (is_request DFU_CLRSTATUS) tr)"

definition observed_state :: "quirks_h \<Rightarrow> env \<Rightarrow> dfu_if \<Rightarrow> event list \<Rightarrow> int" where
  "observed_state q e root tr = bState (fst (snd (dfu_get_status q e root tr)))"

text \<open>
  The conditions under which \<^verbatim>\<open>dfu_flash\<close> reaches the poll loop: the library
  initialises, the enumerator resolves exactly the interface \<open>root\<close>, the file's identifiers
  are wildcards or match, the device opens with handle \<open>h\<close>, the interface is claimed and the
  alternate setting selected. \<open>setup_trace\<close> is the run up to that point.
\<close>

definition setup_succeeds :: "env \<Rightarrow> globals \<Rightarrow> int \<Rightarrow> dfu_if \<Rightarrow> nat \<Rightarrow> bool" where
  "setup_succeeds e g fd root h \<longleftrightarrow>
     libusb_init e = 0 \<and>
     (let file = dfu_load_file e fd;
          g1 = adopt_file_ids file (g\<lparr>dfu_root := []\<rparr>)
      in probe_devices e (match_vendor g1) (match_product g1) = [root] \<and>
         (idVendor file = 0xffff \<or> idVendor file = vendor root) \<and>
         (idProduct file = 0xffff \<or> idProduct file = product root)) \<and>
     libusb_open e = (0, Some h) \<and>
     0 \<le> libusb_claim_interface e \<and>
     0 \<le> libusb_set_interface_alt_setting e"

definition setup_trace :: "nat \<Rightarrow> event list" where
  "setup_trace h =
     [Call_libusb_init, Call_dfu_load_file, Call_probe_devices, Call_libusb_open 0 (Some h),
      Call_libusb_claim_interface, Call_libusb_set_interface_alt_setting]"

text \<open>
  The first part of these conditions, up to and including the successful
  \<^verbatim>\<open>libusb_open\<close>: what holds on the paths where claiming the interface or selecting the
  alternate setting is what fails.
\<close>

definition device_opens :: "env \<Rightarrow> globals \<Rightarrow> int \<Rightarrow> dfu_if \<Rightarrow> nat \<Rightarrow> bool" where
  "device_opens e g fd root h \<longleftrightarrow>
     libusb_init e = 0 \<and>
     (let file = dfu_load_file e fd;
          g1 = adopt_file_ids file (g\<lparr>dfu_root := []\<rparr>)
      in probe_devices e (match_vendor g1) (match_product g1) = [root] \<and>
         (idVendor file = 0xffff \<or> idVendor file = vendor root) \<and>
         (idProduct file = 0xffff \<or> idProduct file = product root)) \<and>
     libusb_open e = (0, Some h)"

section \<open>Sample inputs\<close>

text \<open>
  Concrete collaborators on which the model is evaluated: one matching interface, a
  firmware file with the same identifiers, and a device that answers every GETSTATUS with a
  full six-byte record of a fixed status and state, and every other request with 0.
\<close>

definition sample_quirks :: quirks_h where
  "sample_quirks = \<lparr>QUIRK_POLLTIMEOUT = 1, DEFAULT_POLLTIMEOUT = 5\<rparr>"

definition sample_if :: dfu_if where
  "sample_if =
     \<lparr>vendor = 0x0483, product = 0xdf11, intf = 0, altsetting = 0, quirks = 0,
      bMaxPacketSize0 = 64, wTransferSize = 2048, dev_handle = None\<rparr>"

definition sample_file :: dfu_file where
  "sample_file = \<lparr>idVendor = 0x0483, idProduct = 0xdf11\<rparr>"

definition fixed_state_device ::
  "byte \<Rightarrow> byte \<Rightarrow> event list \<Rightarrow> usb_request \<Rightarrow> int \<times> byte list" where
  "fixed_state_device st state tr req =
     (if bRequest req = DFU_GETSTATUS then (6, [st, 0, 0, 0, state, 0]) else (0, []))"

definition sample_env :: "byte \<Rightarrow> byte \<Rightarrow> env" where
  "sample_env st state =
     \<lparr>libusb_init = 0, dfu_load_file = (\<lambda>_. sample_file),
      probe_devices = (\<lambda>_ _. [sample_if]), libusb_open = (0, Some 1),
      libusb_claim_interface = 0, libusb_set_interface_alt_setting = 0,
      libusb_control_transfer = fixed_state_device st state,
      dfuload_do_dnload = (\<lambda>_. 0)\<rparr>"

definition sample_globals :: globals where
  "sample_globals = \<lparr>match_vendor = - 1, match_product = - 1, dfu_root = []\<rparr>"

text \<open>
  A device that reports status unknown-error in state dfu-error on its first \<open>k\<close> polls
  and status OK in state dfu-idle from then on.
\<close>

definition recovering_device :: "nat \<Rightarrow> event list \<Rightarrow> usb_request \<Rightarrow> int \<times> byte list" where
  "recovering_device k tr req =
     (if bRequest req = DFU_GETSTATUS then
        (if polls tr < k then (6, [14, 0, 0, 0, 10, 0]) else (6, [0, 0, 0, 0, 2, 0]))
      else (0, []))"

lemmas sample_defs =
  sample_quirks_def sample_if_def sample_file_def fixed_state_device_def sample_env_def
  sample_globals_def

lemmas codec_defs =
  dfu_get_status_def get_status_request_def dfu_clear_status_def dfu_abort_def
  DFU_GETSTATUS_def DFU_CLRSTATUS_def DFU_ABORT_def LIBUSB_ENDPOINT_IN_def
  LIBUSB_ENDPOINT_OUT_def LIBUSB_REQUEST_TYPE_CLASS_def LIBUSB_RECIPIENT_INTERFACE_def

lemmas flash_defs = dfu_flash_def adopt_file_ids_def flash_after_poll_def flash_out_def

section \<open>Properties of the diagnostic tables\<close>

lemma length_dfu_status_names: "length dfu_status_names = 16"
  by (simp add: dfu_status_names_def)

text \<open>
  C8, as the source has it: \<^verbatim>\<open>dfu_status_to_string\<close> at status code 0 returns the first
  entry of the table, which reads ``No error condition is present'', and
  \<^verbatim>\<open>dfu_state_to_string\<close> at the dfu-idle state code returns the label ``dfuIDLE''.
\<close>

theorem status_ok_and_idle_labels:
  "dfu_status_to_string DFU_STATUS_OK = Some ''No error condition is present'' \<and>
   dfu_state_to_string STATE_DFU_IDLE = Some ''dfuIDLE''"
  by (simp add: dfu_status_to_string_def DFU_STATUS_defs array_read_def dfu_status_names_def
      dfu_state_to_string_def STATE_defs)

text \<open>
  C8, as the spec words it: the sentence for status code 0 would be
  ``no error condition present''. The table entry differs from it in its first letter and
  in the word ``is''.
\<close>

theorem status_ok_sentence_differs:
  "dfu_status_to_string 0 \<noteq> Some ''no error condition present''"
  by (simp add: dfu_status_to_string_def DFU_STATUS_defs array_read_def dfu_status_names_def)

text \<open>
  C9: \<^verbatim>\<open>dfu_state_to_string\<close> returns a label exactly for the eleven named state codes and
  the null pointer for every other code; \<^verbatim>\<open>dfu_status_to_string\<close> returns the entry of the
  sixteen-entry table for every code from 0 to 15 and the sentinel ``INVALID'' for every code
  above 15.
\<close>

theorem diagnostic_tables_domain:
  "(dfu_state_to_string s \<noteq> None \<longleftrightarrow>
      s \<in> {STATE_APP_IDLE, STATE_APP_DETACH, STATE_DFU_IDLE, STATE_DFU_DOWNLOAD_SYNC,
           STATE_DFU_DOWNLOAD_BUSY, STATE_DFU_DOWNLOAD_IDLE, STATE_DFU_MANIFEST_SYNC,
           STATE_DFU_MANIFEST, STATE_DFU_MANIFEST_WAIT_RESET, STATE_DFU_UPLOAD_IDLE,
           STATE_DFU_ERROR}) \<and>
   card {STATE_APP_IDLE, STATE_APP_DETACH, STATE_DFU_IDLE, STATE_DFU_DOWNLOAD_SYNC,
         STATE_DFU_DOWNLOAD_BUSY, STATE_DFU_DOWNLOAD_IDLE, STATE_DFU_MANIFEST_SYNC,
         STATE_DFU_MANIFEST, STATE_DFU_MANIFEST_WAIT_RESET, STATE_DFU_UPLOAD_IDLE,
         STATE_DFU_ERROR} = 11 \<and>
   length dfu_status_names = 16 \<and>
   (0 \<le> c \<and> c \<le> 15 \<longrightarrow> dfu_status_to_string c = Some (dfu_status_names ! nat c)) \<and>
   (15 < c \<longrightarrow> dfu_status_to_string c = Some ''INVALID'')"
proof -
  have states: "dfu_state_to_string s \<noteq> None \<longleftrightarrow>
      s \<in> {STATE_APP_IDLE, STATE_APP_DETACH, STATE_DFU_IDLE, STATE_DFU_DOWNLOAD_SYNC,
           STATE_DFU_DOWNLOAD_BUSY, STATE_DFU_DOWNLOAD_IDLE, STATE_DFU_MANIFEST_SYNC,
           STATE_DFU_MANIFEST, STATE_DFU_MANIFEST_WAIT_RESET, STATE_DFU_UPLOAD_IDLE,
           STATE_DFU_ERROR}"
    by (simp add: dfu_state_to_string_def)
  have eleven: "card {STATE_APP_IDLE, STATE_APP_DETACH, STATE_DFU_IDLE,
         STATE_DFU_DOWNLOAD_SYNC, STATE_DFU_DOWNLOAD_BUSY, STATE_DFU_DOWNLOAD_IDLE,
         STATE_DFU_MANIFEST_SYNC, STATE_DFU_MANIFEST, STATE_DFU_MANIFEST_WAIT_RESET,
         STATE_DFU_UPLOAD_IDLE, STATE_DFU_ERROR} = 11"
    by (simp add: STATE_defs)
  have table: "0 \<le> c \<and> c \<le> 15 \<longrightarrow> dfu_status_to_string c = Some (dfu_status_names ! nat c)"
    by (simp add: dfu_status_to_string_def DFU_STATUS_defs array_read_def
        length_dfu_status_names)
  have sentinel: "15 < c \<longrightarrow> dfu_status_to_string c = Some ''INVALID''"
    by (simp add: dfu_status_to_string_def DFU_STATUS_defs)
  from states eleven table sentinel length_dfu_status_names show ?thesis
    by blast
qed

theorem diagnostic_tables_domain_witness:
  "dfu_state_to_string 9 = Some ''dfuUPLOAD-IDLE'' \<and> dfu_state_to_string 11 = None \<and>
   dfu_status_to_string 3 = Some ''Device is unable to write memory'' \<and>
   dfu_status_to_string 16 = Some ''INVALID''"
proof -
  have a: "(0::int) \<le> 3 \<and> (3::int) \<le> 15" and b: "(15::int) < 16"
    by simp_all
  have "dfu_state_to_string 9 \<noteq> None" and "dfu_state_to_string 11 = None"
    and "dfu_status_to_string 3 = Some (dfu_status_names ! nat 3)"
    and "dfu_status_to_string 16 = Some ''INVALID''"
    using a b diagnostic_tables_domain [of 9 3] diagnostic_tables_domain [of 11 16]
    by (simp_all add: STATE_defs)
  then show ?thesis
    by (simp add: dfu_state_to_string_def STATE_defs dfu_status_names_def)
qed

text \<open>
  C10: only the upper bound of the status code is checked. For every negative code the read
  of the sixteen-entry table is outside the table: the function does not return the sentinel
  ``INVALID'' but the out-of-range result of the read.
\<close>

theorem dfu_status_to_string_negative:
  "s < 0 \<Longrightarrow>
     dfu_status_to_string s = array_read dfu_status_names s \<and>
     array_read dfu_status_names s = None \<and>
     dfu_status_to_string s \<noteq> Some ''INVALID''"
  by (simp add: dfu_status_to_string_def DFU_STATUS_defs array_read_def)

theorem dfu_status_to_string_negative_witness:
  "(- 1 :: int) < 0 \<and> dfu_status_to_string (- 1) = None"
proof -
  have h: "(- 1 :: int) < 0" by simp
  from dfu_status_to_string_negative [OF h] h show ?thesis by simp
qed

section \<open>Properties of the status decoder\<close>

text \<open>
  The three masked, shifted and or-ed bytes are the little-endian number they spell: the
  masks change nothing on a byte, and the three shifted bytes occupy disjoint bits.
\<close>

lemma mask_byte: "(0xff AND ucast b :: 32 word) = ucast b" for b :: byte
proof -
  have "(ucast b :: 32 word) AND mask 8 = ucast b"
    by (rule bit_eqI) (auto simp: bit_simps dest: bit_imp_le_length)
  then show ?thesis by (simp add: mask_eq_exp_minus_1 and.commute)
qed

lemma or_bytes_eq_add:
  fixes b1 b2 b3 :: byte
  shows "(push_bit 16 (ucast b3) OR push_bit 8 (ucast b2) OR ucast b1 :: 32 word)
     = push_bit 16 (ucast b3) + push_bit 8 (ucast b2) + ucast b1"
proof -
  have low: "(push_bit 8 (ucast b2) OR ucast b1 :: 32 word) = push_bit 8 (ucast b2) + ucast b1"
    by (rule disjunctive_add [symmetric]) (auto simp: bit_simps dest: bit_imp_le_length)
  have high: "(push_bit 16 (ucast b3) OR (push_bit 8 (ucast b2) OR ucast b1) :: 32 word)
       = push_bit 16 (ucast b3) + (push_bit 8 (ucast b2) OR ucast b1)"
    by (rule disjunctive_add [symmetric]) (auto simp: bit_simps dest: bit_imp_le_length)
  show ?thesis using low high by (simp add: or.assoc add.assoc)
qed

lemma poll_timeout_little_endian:
  fixes b1 b2 b3 :: byte
  shows "(push_bit 16 (0xff AND ucast b3) OR push_bit 8 (0xff AND ucast b2) OR
          (0xff AND ucast b1) :: 32 word)
     = word_of_nat (unat b1 + 256 * unat b2 + 65536 * unat b3)"
proof -
  have u: "unat (ucast x :: 32 word) = unat x" for x :: byte
    by (simp add: unsigned_ucast_eq take_bit_nat_eq_self_iff [THEN iffD2]
        order_less_trans [OF unsigned_less])
  have b: "unat b1 < 256" "unat b2 < 256" "unat b3 < 256"
    using unsigned_less [of b1] unsigned_less [of b2] unsigned_less [of b3] by simp_all
  have "unat (push_bit 16 (ucast b3) + push_bit 8 (ucast b2) + ucast b1 :: 32 word)
      = unat b1 + 256 * unat b2 + 65536 * unat b3"
    using b by (simp add: unat_word_ariths push_bit_eq_mult u)
  then have "(push_bit 16 (ucast b3) + push_bit 8 (ucast b2) + ucast b1 :: 32 word)
      = word_of_nat (unat b1 + 256 * unat b2 + 65536 * unat b3)"
    by (metis of_nat_unat ucast_id)
  then show ?thesis by (simp only: mask_byte or_bytes_eq_add)
qed

text \<open>
  C5, as the source has it: \<^verbatim>\<open>dfu_get_status\<close> returns the transport's return value
  unchanged. When that value is 6, the record holds byte 0 as status code, bytes 1 to 3 as
  the little-endian 24-bit poll timeout (or \<^verbatim>\<open>DEFAULT_POLLTIMEOUT\<close> when the interface's
  quirks contain \<^verbatim>\<open>QUIRK_POLLTIMEOUT\<close>), byte 4 as state code and byte 5 as string index.
  For every other return value the record is exactly the default: status unknown-error,
  poll timeout 0, state dfu-error, string index 0. All four fields are set in every case.
  The return value is negative only when the transport's is: a short read of 0 to 5 bytes
  returns that count.
\<close>

theorem dfu_get_status_decode:
  assumes "libusb_control_transfer e tr (get_status_request dif) = (result, buffer)"
    and "dfu_get_status q e dif tr = (ret, st, tr')"
  shows "ret = result \<and>
     (result = 6 \<longrightarrow>
        st = \<lparr>bStatus = uint (buffer ! 0),
              bwPollTimeout =
                (if quirks dif AND QUIRK_POLLTIMEOUT q \<noteq> 0 then DEFAULT_POLLTIMEOUT q
                 else word_of_nat
                        (unat (buffer ! 1) + 256 * unat (buffer ! 2) + 65536 * unat (buffer ! 3))),
              bState = uint (buffer ! 4),
              iString = uint (buffer ! 5)\<rparr>) \<and>
     (result \<noteq> 6 \<longrightarrow>
        st = \<lparr>bStatus = DFU_STATUS_ERROR_UNKNOWN, bwPollTimeout = 0,
              bState = STATE_DFU_ERROR, iString = 0\<rparr>)"
  using assms unfolding dfu_get_status_def Let_def poll_timeout_little_endian by auto

theorem dfu_get_status_decode_witness:
  "dfu_get_status sample_quirks
     (sample_env 0 0\<lparr>libusb_control_transfer := (\<lambda>_ _. (6, [0, 0x10, 0x27, 0, 5, 1]))\<rparr>)
     sample_if [] =
   (6, \<lparr>bStatus = 0, bwPollTimeout = 10000, bState = 5, iString = 1\<rparr>,
    [Call_libusb_control_transfer (get_status_request sample_if)]) \<and>
   dfu_get_status sample_quirks
     (sample_env 0 0\<lparr>libusb_control_transfer := (\<lambda>_ _. (- 4, []))\<rparr>) sample_if [] =
   (- 4, \<lparr>bStatus = 14, bwPollTimeout = 0, bState = 10, iString = 0\<rparr>,
    [Call_libusb_control_transfer (get_status_request sample_if)])"
proof -
  let ?e = "sample_env 0 0\<lparr>libusb_control_transfer := (\<lambda>_ _. (6, [0, 0x10, 0x27, 0, 5, 1]))\<rparr>"
  let ?f = "sample_env 0 0\<lparr>libusb_control_transfer := (\<lambda>_ _. (- 4, []))\<rparr>"
  let ?tr = "[Call_libusb_control_transfer (get_status_request sample_if)]"
  have e: "libusb_control_transfer ?e [] (get_status_request sample_if) = (6, [0, 0x10, 0x27, 0, 5, 1])"
    by (simp add: sample_env_def)
  have f: "libusb_control_transfer ?f [] (get_status_request sample_if) = (- 4, [])"
    by (simp add: sample_env_def)
  obtain r1 s1 t1 where g1: "dfu_get_status sample_quirks ?e sample_if [] = (r1, s1, t1)"
    using prod_cases3 by blast
  obtain r2 s2 t2 where g2: "dfu_get_status sample_quirks ?f sample_if [] = (r2, s2, t2)"
    using prod_cases3 by blast
  have t: "t1 = ?tr" "t2 = ?tr"
    using g1 g2 by (auto simp: dfu_get_status_def Let_def split: prod.splits)
  from dfu_get_status_decode [OF e g1] dfu_get_status_decode [OF f g2] g1 g2 t
  show ?thesis
    by (simp add: sample_quirks_def sample_if_def DFU_STATUS_defs STATE_defs)
qed

text \<open>
  C5, as the spec words it: a read of fewer than six bytes would be reported as a failure
  by the return value. The function documents its return value as the number of bytes read,
  or a negative number on an error, and its callers test \<^verbatim>\<open>ret < 0\<close>. A device that
  answers with three bytes leaves the record at its defaults and makes the call return 3.
\<close>

theorem dfu_get_status_short_read_not_negative:
  "dfu_get_status sample_quirks
     (sample_env 0 0\<lparr>libusb_control_transfer := (\<lambda>_ _. (3, [0, 0, 0]))\<rparr>) sample_if [] =
   (3, \<lparr>bStatus = DFU_STATUS_ERROR_UNKNOWN, bwPollTimeout = 0, bState = STATE_DFU_ERROR,
        iString = 0\<rparr>,
    [Call_libusb_control_transfer (get_status_request sample_if)]) \<and>
   \<not> (3 :: int) < 0"
  by (simp add: dfu_get_status_def sample_env_def Let_def)

section \<open>Properties of the orchestrator\<close>

subsection \<open>Setup\<close>

text \<open>
  C6: when the library is initialised, the enumerator has resolved exactly one interface, and
  the firmware file declares a vendor or product identifier that is not the wildcard
  \<open>0xffff\<close> and differs from the device's, \<^verbatim>\<open>dfu_flash\<close> prints both identifier pairs
  and returns \<^verbatim>\<open>EINVAL\<close> with \<open>finished = -1\<close>. The run consists of the initialisation,
  the file load, the probe, the message and \<^verbatim>\<open>libusb_exit\<close>: the device is not opened and
  no control transfer is issued.
\<close>

theorem dfu_flash_id_mismatch:
  assumes "libusb_init e = 0"
    and "file = dfu_load_file e fd"
    and "g = adopt_file_ids file (g0\<lparr>dfu_root := []\<rparr>)"
    and "probe_devices e (match_vendor g) (match_product g) = [root]"
    and "(idVendor file \<noteq> 0xffff \<and> idVendor file \<noteq> vendor root) \<or>
         (idProduct file \<noteq> 0xffff \<and> idProduct file \<noteq> product root)"
  shows "dfu_flash q e g0 fd =
     Some (Returned EINVAL (- 1), g\<lparr>dfu_root := [root]\<rparr>,
       [Call_libusb_init, Call_dfu_load_file, Call_probe_devices,
        Call_fprintf ''Error: File ID %04x:%04x does not match device (%04x:%04x)''
          [uint (idVendor file), uint (idProduct file), uint (vendor root), uint (product root)],
        Call_libusb_exit])"
  using assms by (auto simp: dfu_flash_def Let_def flash_out_def EINVAL_def)

text \<open>
  A file for vendor \<open>0x1d50\<close> with a caller who asked for vendor \<open>0x0483\<close>, which is what
  the enumerator finds.
\<close>

theorem dfu_flash_id_mismatch_witness:
  "dfu_flash sample_quirks
     (sample_env 0 2\<lparr>dfu_load_file := (\<lambda>_. \<lparr>idVendor = 0x1d50, idProduct = 0xffff\<rparr>)\<rparr>)
     (sample_globals\<lparr>match_vendor := 0x0483\<rparr>) 3 =
   Some (Returned 22 (- 1),
     \<lparr>match_vendor = 0x0483, match_product = - 1, dfu_root = [sample_if]\<rparr>,
     [Call_libusb_init, Call_dfu_load_file, Call_probe_devices,
      Call_fprintf ''Error: File ID %04x:%04x does not match device (%04x:%04x)''
        [0x1d50, 0xffff, 0x0483, 0xdf11],
      Call_libusb_exit])"
proof -
  let ?e = "sample_env 0 2\<lparr>dfu_load_file := (\<lambda>_. \<lparr>idVendor = 0x1d50, idProduct = 0xffff\<rparr>)\<rparr>"
  let ?file = "\<lparr>idVendor = 0x1d50, idProduct = 0xffff\<rparr> :: dfu_file"
  let ?g = "\<lparr>match_vendor = 0x0483, match_product = - 1, dfu_root = []\<rparr>"
  have 1: "libusb_init ?e = 0" and 2: "?file = dfu_load_file ?e 3"
    by (simp_all add: sample_env_def)
  have 3: "?g = adopt_file_ids ?file (sample_globals\<lparr>match_vendor := 0x0483, dfu_root := []\<rparr>)"
    by (simp add: adopt_file_ids_def sample_globals_def)
  have 4: "probe_devices ?e (match_vendor ?g) (match_product ?g) = [sample_if]"
    by (simp add: sample_env_def)
  have 5: "(idVendor ?file \<noteq> 0xffff \<and> idVendor ?file \<noteq> vendor sample_if) \<or>
           (idProduct ?file \<noteq> 0xffff \<and> idProduct ?file \<noteq> product sample_if)"
    by (simp add: sample_if_def)
  from dfu_flash_id_mismatch [OF 1 2 3 4 5, of sample_quirks] show ?thesis
    by (simp add: sample_if_def EINVAL_def)
qed

text \<open>
  C7: when the library is initialised and the enumerator resolves no interface,
  \<^verbatim>\<open>dfu_flash\<close> returns \<^verbatim>\<open>ENODEV\<close> with \<open>finished = -1\<close>; when it resolves more than one,
  \<^verbatim>\<open>dfu_flash\<close> prints that more than one DFU capable device was found and returns
  \<^verbatim>\<open>ENODEV\<close> with \<open>finished = -1\<close>. Neither run contains a call of \<^verbatim>\<open>libusb_open\<close>.
\<close>

theorem dfu_flash_no_or_many_devices:
  assumes "libusb_init e = 0"
    and "g = adopt_file_ids (dfu_load_file e fd) (g0\<lparr>dfu_root := []\<rparr>)"
    and "probed = probe_devices e (match_vendor g) (match_product g)"
  shows "(probed = [] \<longrightarrow>
            dfu_flash q e g0 fd =
              Some (Returned ENODEV (- 1), g\<lparr>dfu_root := []\<rparr>,
                [Call_libusb_init, Call_dfu_load_file, Call_probe_devices, Call_libusb_exit])) \<and>
         (1 < length probed \<longrightarrow>
            dfu_flash q e g0 fd =
              Some (Returned ENODEV (- 1), g\<lparr>dfu_root := probed\<rparr>,
                [Call_libusb_init, Call_dfu_load_file, Call_probe_devices,
                 Call_fprintf (''More than one DFU capable USB device found! '' @
                               ''Try `--list' and specify the serial number '' @
                               ''or disconnect all but one device'' @ [CHR 0x0A]) [],
                 Call_libusb_exit]))"
  using assms by (auto simp: dfu_flash_def Let_def flash_out_def ENODEV_def split: list.splits)

text \<open>
  An enumerator that finds nothing, and one that finds two interfaces of the same device.
\<close>

theorem dfu_flash_no_or_many_devices_witness:
  "dfu_flash sample_quirks (sample_env 0 2\<lparr>probe_devices := (\<lambda>_ _. [])\<rparr>) sample_globals 3 =
     Some (Returned 19 (- 1),
       \<lparr>match_vendor = 0x0483, match_product = 0xdf11, dfu_root = []\<rparr>,
       [Call_libusb_init, Call_dfu_load_file, Call_probe_devices, Call_libusb_exit]) \<and>
   dfu_flash sample_quirks
     (sample_env 0 2\<lparr>probe_devices := (\<lambda>_ _. [sample_if, sample_if\<lparr>intf := 1\<rparr>])\<rparr>)
     sample_globals 3 =
     Some (Returned 19 (- 1),
       \<lparr>match_vendor = 0x0483, match_product = 0xdf11,
          dfu_root = [sample_if, sample_if\<lparr>intf := 1\<rparr>]\<rparr>,
       [Call_libusb_init, Call_dfu_load_file, Call_probe_devices,
        Call_fprintf (''More than one DFU capable USB device found! '' @
                      ''Try `--list' and specify the serial number '' @
                      ''or disconnect all but one device'' @ [CHR 0x0A]) [],
        Call_libusb_exit])"
proof -
  let ?e0 = "sample_env 0 2\<lparr>probe_devices := (\<lambda>_ _. [])\<rparr>"
  let ?e2 = "sample_env 0 2\<lparr>probe_devices := (\<lambda>_ _. [sample_if, sample_if\<lparr>intf := 1\<rparr>])\<rparr>"
  let ?g = "\<lparr>match_vendor = 0x0483, match_product = 0xdf11, dfu_root = []\<rparr>"
  have i0: "libusb_init ?e0 = 0" and i2: "libusb_init ?e2 = 0"
    by (simp_all add: sample_env_def)
  have g0: "?g = adopt_file_ids (dfu_load_file ?e0 3) (sample_globals\<lparr>dfu_root := []\<rparr>)"
    and g2: "?g = adopt_file_ids (dfu_load_file ?e2 3) (sample_globals\<lparr>dfu_root := []\<rparr>)"
    by (simp_all add: adopt_file_ids_def sample_globals_def sample_env_def sample_file_def)
  have p0: "[] = probe_devices ?e0 (match_vendor ?g) (match_product ?g)"
    and p2: "[sample_if, sample_if\<lparr>intf := 1\<rparr>] =
             probe_devices ?e2 (match_vendor ?g) (match_product ?g)"
    by (simp_all add: sample_env_def)
  from dfu_flash_no_or_many_devices [OF i0 g0 p0, of sample_quirks]
    dfu_flash_no_or_many_devices [OF i2 g2 p2, of sample_quirks]
  show ?thesis
    by (simp add: ENODEV_def)
qed

subsection \<open>The poll loop and what follows it\<close>

text \<open>What the sample devices report at each poll.\<close>

lemma observed_state_fixed_device:
  "observed_state q (sample_env st state) root tr = uint state"
  by (simp add: observed_state_def dfu_get_status_def get_status_request_def sample_env_def
      fixed_state_device_def Let_def)

lemma observed_state_recovering_device:
  "observed_state q (sample_env st state\<lparr>libusb_control_transfer := recovering_device k\<rparr>)
     root tr = (if polls tr < k then 10 else 2)"
  by (simp add: observed_state_def dfu_get_status_def get_status_request_def sample_env_def
      recovering_device_def Let_def)

text \<open>
  After a successful setup, \<^verbatim>\<open>dfu_flash\<close> is the poll loop followed by the rest of the
  function, and the rest always ends with the download, the close and \<^verbatim>\<open>libusb_exit\<close>.
\<close>

lemma dfu_flash_after_setup:
  assumes "setup_succeeds e g fd root h"
  shows "\<exists>g4. dfu_flash q e g fd =
     (case status_again q e (root\<lparr>dev_handle := Some h\<rparr>) (setup_trace h) of
        None \<Rightarrow> None
      | Some (ret, st, tr6) \<Rightarrow>
          Some (flash_after_poll q e (root\<lparr>dev_handle := Some h\<rparr>) g4 ret st tr6))"
  using assms unfolding setup_succeeds_def dfu_flash_def setup_trace_def Let_def
  by (auto split: option.splits)

lemma flash_after_poll_trace:
  assumes "flash_after_poll q e root g ret st tr = (out, g', tr')"
  shows "\<exists>mid n r fin.
           tr' = tr @ mid @ [Call_dfuload_do_dnload n, Call_libusb_close, Call_libusb_exit] \<and>
           out = Returned r fin \<and>
           Call_fprintf ''Device still in Runtime Mode!'' [] \<notin> set mid"
proof -
  obtain r1 t1 where cs: "dfu_clear_status e root tr = (r1, t1)" by force
  then have t1: "t1 = tr @ [Call_libusb_control_transfer
      \<lparr>bmRequestType = LIBUSB_ENDPOINT_OUT OR LIBUSB_REQUEST_TYPE_CLASS OR LIBUSB_RECIPIENT_INTERFACE,
       bRequest = DFU_CLRSTATUS, wValue = 0, wIndex = ucast (intf root), wLength = 0\<rparr>]"
    by (auto simp: dfu_clear_status_def Let_def)
  define t2 where "t2 = (if r1 < 0 then t1 @ [Call_fprintf ''USB communication error'' []] else t1)"
  obtain r2 s2 t3 where gs: "dfu_get_status q e root t2 = (r2, s2, t3)"
    using prod_cases3 by blast
  then have t3: "t3 = t2 @ [Call_libusb_control_transfer (get_status_request root)]"
    by (auto simp: dfu_get_status_def Let_def split: prod.splits)
  show ?thesis
    using assms cs gs
    unfolding flash_after_poll_def flash_out_def Let_def
    by (auto simp: t1 t2_def t3 split: if_splits)
qed

lemma clamp_zero_uint [simp]: "(if 0 < uint b then uint b else 0) = uint b"
proof (cases "0 < uint b")
  case True
  then show ?thesis by simp
next
  case False
  with uint_nonnegative [of b] have "uint b = 0" by linarith
  then show ?thesis by simp
qed

lemma flash_after_poll_zero_transfer_size:
  assumes "wTransferSize root = 0"
    and "flash_after_poll q e root g ret st tr = (out, g', tr')"
  shows "\<exists>mid r fin.
           out = Returned r fin \<and>
           tr' = tr @ mid @
             [Call_fprintf ''Transfer size must be specified'' [],
              Call_dfuload_do_dnload (uint (bMaxPacketSize0 root)),
              Call_libusb_close, Call_libusb_exit]"
proof -
  obtain r1 t1 where cs: "dfu_clear_status e root tr = (r1, t1)" by force
  then have t1: "t1 = tr @ [Call_libusb_control_transfer
      \<lparr>bmRequestType = LIBUSB_ENDPOINT_OUT OR LIBUSB_REQUEST_TYPE_CLASS OR LIBUSB_RECIPIENT_INTERFACE,
       bRequest = DFU_CLRSTATUS, wValue = 0, wIndex = ucast (intf root), wLength = 0\<rparr>]"
    by (auto simp: dfu_clear_status_def Let_def)
  define t2 where "t2 = (if r1 < 0 then t1 @ [Call_fprintf ''USB communication error'' []] else t1)"
  obtain r2 s2 t3 where gs: "dfu_get_status q e root t2 = (r2, s2, t3)"
    using prod_cases3 by blast
  then have t3: "t3 = t2 @ [Call_libusb_control_transfer (get_status_request root)]"
    by (auto simp: dfu_get_status_def Let_def split: prod.splits)
  define tr1 where "tr1 =
            (if DFU_STATUS_OK \<noteq> bStatus st then
               (let t4 = (if r2 < 0 then t3 @ [Call_fprintf ''USB communication error'' []]
                          else t3);
                    t5 = (if DFU_STATUS_OK \<noteq> bStatus s2
                          then t4 @ [Call_fprintf ''Status is not OK: %d'' [bStatus s2]]
                          else t4)
                in t5 @ [Call_usleep (bwPollTimeout s2 * 1000)])
             else tr)"
  have pre: "\<exists>mid. tr1 = tr @ mid"
    by (auto simp: tr1_def t1 t2_def t3 Let_def)
  have "tr' = tr1 @ [Call_fprintf ''Transfer size must be specified'' [],
              Call_dfuload_do_dnload (uint (bMaxPacketSize0 root)),
              Call_libusb_close, Call_libusb_exit] \<and> (\<exists>r fin. out = Returned r fin)"
    using assms cs gs
    unfolding flash_after_poll_def flash_out_def
    by (auto simp: Let_def tr1_def t2_def)
  with pre show ?thesis
    by auto
qed

lemma status_again_runtime_step:
  assumes "observed_state q e root tr = DFU_STATE_appIDLE \<or>
           observed_state q e root tr = DFU_STATE_appDETACH"
  shows "\<exists>ret st poll.
           status_again q e root tr =
             Some (ret, st, tr @ poll @ [Call_fprintf ''Device still in Runtime Mode!'' []])"
proof -
  obtain r0 s0 t1 where gs: "dfu_get_status q e root tr = (r0, s0, t1)"
    using prod_cases3 by blast
  then have t1: "t1 = tr @ [Call_libusb_control_transfer (get_status_request root)]"
    by (auto simp: dfu_get_status_def Let_def split: prod.splits)
  have st: "bState s0 = DFU_STATE_appIDLE \<or> bState s0 = DFU_STATE_appDETACH"
    using assms gs by (simp add: observed_state_def)
  show ?thesis
    using gs st
    by (subst status_again.simps) (auto simp: Let_def t1)
qed

text \<open>
  C1, on the code: when setup has succeeded and the first poll observes runtime-idle or
  runtime-detach, \<^verbatim>\<open>dfu_flash\<close> prints ``Device still in Runtime Mode!'', leaves the
  switch, and goes on to call \<^verbatim>\<open>dfuload_do_dnload\<close>, closes the device and returns. The
  Download Engine is invoked after the message.
\<close>

theorem dfu_flash_runtime_mode_still_downloads:
  assumes "setup_succeeds e g fd root h"
    and "observed_state q e (root\<lparr>dev_handle := Some h\<rparr>) (setup_trace h) = DFU_STATE_appIDLE \<or>
         observed_state q e (root\<lparr>dev_handle := Some h\<rparr>) (setup_trace h) = DFU_STATE_appDETACH"
  shows "\<exists>ret fin g' poll rest n.
           dfu_flash q e g fd =
             Some (Returned ret fin, g',
               setup_trace h @ poll @ Call_fprintf ''Device still in Runtime Mode!'' [] # rest @
                 [Call_dfuload_do_dnload n, Call_libusb_close, Call_libusb_exit])"
proof -
  let ?root = "root\<lparr>dev_handle := Some h\<rparr>"
  from status_again_runtime_step [OF assms(2)]
  obtain ret st poll where loop:
    "status_again q e ?root (setup_trace h) =
       Some (ret, st, setup_trace h @ poll @ [Call_fprintf ''Device still in Runtime Mode!'' []])"
    by blast
  from dfu_flash_after_setup [OF assms(1), of q] loop
  obtain g4 where run:
    "dfu_flash q e g fd =
       Some (flash_after_poll q e ?root g4 ret st
         (setup_trace h @ poll @ [Call_fprintf ''Device still in Runtime Mode!'' []]))"
    by auto
  obtain out g' tr where after:
    "flash_after_poll q e ?root g4 ret st
       (setup_trace h @ poll @ [Call_fprintf ''Device still in Runtime Mode!'' []]) = (out, g', tr)"
    using prod_cases3 by blast
  from flash_after_poll_trace [OF after]
  obtain mid n r fin where
    "tr = (setup_trace h @ poll @ [Call_fprintf ''Device still in Runtime Mode!'' []]) @ mid @
           [Call_dfuload_do_dnload n, Call_libusb_close, Call_libusb_exit]"
    and "out = Returned r fin"
    by blast
  with run after show ?thesis
    by auto
qed

text \<open>
  A device whose first poll reports status OK in state runtime-idle (state code 0): the
  download is called with the advertised transfer size, and the value returned is 6, the
  byte count that the GETSTATUS of the loop left in \<^verbatim>\<open>ret\<close>.
\<close>

theorem dfu_flash_runtime_mode_still_downloads_witness:
  "dfu_flash sample_quirks (sample_env 0 0) sample_globals 3 =
     Some (Returned 6 (- 1),
       \<lparr>match_vendor = 0x0483, match_product = 0xdf11, dfu_root = [sample_if]\<rparr>,
       [Call_libusb_init, Call_dfu_load_file, Call_probe_devices,
        Call_libusb_open 0 (Some 1), Call_libusb_claim_interface,
        Call_libusb_set_interface_alt_setting,
        Call_libusb_control_transfer (get_status_request sample_if),
        Call_usleep 0, Call_fprintf ''Device still in Runtime Mode!'' [],
        Call_dfuload_do_dnload 2048, Call_libusb_close, Call_libusb_exit])"
proof -
  have s: "setup_succeeds (sample_env 0 0) sample_globals 3 sample_if 1"
    by (simp add: setup_succeeds_def sample_defs adopt_file_ids_def Let_def)
  have o: "observed_state sample_quirks (sample_env 0 0) (sample_if\<lparr>dev_handle := Some 1\<rparr>)
             (setup_trace 1) = DFU_STATE_appIDLE \<or>
           observed_state sample_quirks (sample_env 0 0) (sample_if\<lparr>dev_handle := Some 1\<rparr>)
             (setup_trace 1) = DFU_STATE_appDETACH"
    by (simp add: observed_state_fixed_device DFU_STATE_defs)
  from dfu_flash_runtime_mode_still_downloads [OF s o]
  obtain ret fin g' poll rest n where
    "dfu_flash sample_quirks (sample_env 0 0) sample_globals 3 =
       Some (Returned ret fin, g',
         setup_trace 1 @ poll @ Call_fprintf ''Device still in Runtime Mode!'' [] # rest @
           [Call_dfuload_do_dnload n, Call_libusb_close, Call_libusb_exit])"
    by blast
  moreover have "dfu_flash sample_quirks (sample_env 0 0) sample_globals 3 =
     Some (Returned 6 (- 1),
       \<lparr>match_vendor = 0x0483, match_product = 0xdf11, dfu_root = [sample_if]\<rparr>,
       [Call_libusb_init, Call_dfu_load_file, Call_probe_devices,
        Call_libusb_open 0 (Some 1), Call_libusb_claim_interface,
        Call_libusb_set_interface_alt_setting,
        Call_libusb_control_transfer (get_status_request sample_if),
        Call_usleep 0, Call_fprintf ''Device still in Runtime Mode!'' [],
        Call_dfuload_do_dnload 2048, Call_libusb_close, Call_libusb_exit])"
    apply (simp add: flash_defs sample_defs Let_def)
    apply (subst status_again.simps)
    apply (simp add: flash_defs sample_defs codec_defs DFU_STATE_defs DFU_STATUS_defs Let_def)
    done
  ultimately show ?thesis by simp
qed

text \<open>
  C3, on the code: when setup has succeeded, the interface advertises transfer size 0 (the
  local \<^verbatim>\<open>transfer_size\<close> is 0 too, there is no way to pass another) and the poll loop
  ends, \<^verbatim>\<open>dfu_flash\<close> prints ``Transfer size must be specified'', raises the size 0 to
  \<^verbatim>\<open>bMaxPacketSize0\<close> and calls \<^verbatim>\<open>dfuload_do_dnload\<close> with it, closes the device and
  returns.
\<close>

theorem dfu_flash_zero_transfer_size_still_downloads:
  assumes "setup_succeeds e g fd root h"
    and "wTransferSize root = 0"
    and "status_again q e (root\<lparr>dev_handle := Some h\<rparr>) (setup_trace h) = Some (ret, st, tr6)"
  shows "\<exists>r fin g' mid.
           dfu_flash q e g fd =
             Some (Returned r fin, g',
               tr6 @ mid @
                 [Call_fprintf ''Transfer size must be specified'' [],
                  Call_dfuload_do_dnload (uint (bMaxPacketSize0 root)),
                  Call_libusb_close, Call_libusb_exit])"
proof -
  let ?root = "root\<lparr>dev_handle := Some h\<rparr>"
  from dfu_flash_after_setup [OF assms(1), of q] assms(3)
  obtain g4 where run: "dfu_flash q e g fd = Some (flash_after_poll q e ?root g4 ret st tr6)"
    by auto
  obtain out g' tr where after: "flash_after_poll q e ?root g4 ret st tr6 = (out, g', tr)"
    using prod_cases3 by blast
  have "wTransferSize ?root = 0"
    using assms(2) by simp
  from flash_after_poll_zero_transfer_size [OF this after] run after show ?thesis
    by auto
qed

text \<open>
  An interface with transfer size 0 and maximum packet size 64 on a device in dfu-idle: the
  download is called with 64.
\<close>

theorem dfu_flash_zero_transfer_size_still_downloads_witness:
  "dfu_flash sample_quirks
     (sample_env 0 2\<lparr>probe_devices := (\<lambda>_ _. [sample_if\<lparr>wTransferSize := 0\<rparr>])\<rparr>)
     sample_globals 3 =
     Some (Returned 6 (- 1),
       \<lparr>match_vendor = 0x0483, match_product = 0xdf11,
          dfu_root = [sample_if\<lparr>wTransferSize := 0\<rparr>]\<rparr>,
       [Call_libusb_init, Call_dfu_load_file, Call_probe_devices,
        Call_libusb_open 0 (Some 1), Call_libusb_claim_interface,
        Call_libusb_set_interface_alt_setting,
        Call_libusb_control_transfer (get_status_request sample_if),
        Call_usleep 0, Call_fprintf ''Transfer size must be specified'' [],
        Call_dfuload_do_dnload 64, Call_libusb_close, Call_libusb_exit])"
proof -
  let ?e = "sample_env 0 2\<lparr>probe_devices := (\<lambda>_ _. [sample_if\<lparr>wTransferSize := 0\<rparr>])\<rparr>"
  let ?root = "sample_if\<lparr>wTransferSize := 0\<rparr>"
  have s: "setup_succeeds ?e sample_globals 3 ?root 1"
    by (simp add: setup_succeeds_def sample_defs adopt_file_ids_def Let_def)
  have z: "wTransferSize ?root = 0"
    by simp
  have l: "status_again sample_quirks ?e (?root\<lparr>dev_handle := Some 1\<rparr>) (setup_trace 1) =
      Some (6, \<lparr>bStatus = 0, bwPollTimeout = 0, bState = 2, iString = 0\<rparr>,
        setup_trace 1 @
          [Call_libusb_control_transfer (get_status_request sample_if), Call_usleep 0])"
    by (subst status_again.simps)
      (simp add: sample_defs codec_defs DFU_STATE_defs Let_def)
  from dfu_flash_zero_transfer_size_still_downloads [OF s z l]
  obtain r fin g' mid where
    "dfu_flash sample_quirks ?e sample_globals 3 =
       Some (Returned r fin, g',
         (setup_trace 1 @
            [Call_libusb_control_transfer (get_status_request sample_if), Call_usleep 0]) @ mid @
           [Call_fprintf ''Transfer size must be specified'' [],
            Call_dfuload_do_dnload (uint (bMaxPacketSize0 ?root)),
            Call_libusb_close, Call_libusb_exit])"
    by blast
  moreover have "dfu_flash sample_quirks ?e sample_globals 3 =
     Some (Returned 6 (- 1),
       \<lparr>match_vendor = 0x0483, match_product = 0xdf11,
          dfu_root = [sample_if\<lparr>wTransferSize := 0\<rparr>]\<rparr>,
       [Call_libusb_init, Call_dfu_load_file, Call_probe_devices,
        Call_libusb_open 0 (Some 1), Call_libusb_claim_interface,
        Call_libusb_set_interface_alt_setting,
        Call_libusb_control_transfer (get_status_request sample_if),
        Call_usleep 0, Call_fprintf ''Transfer size must be specified'' [],
        Call_dfuload_do_dnload 64, Call_libusb_close, Call_libusb_exit])"
    apply (simp add: flash_defs sample_defs Let_def)
    apply (subst status_again.simps)
    apply (simp add: flash_defs sample_defs codec_defs DFU_STATE_defs DFU_STATUS_defs Let_def)
    done
  ultimately show ?thesis by simp
qed

subsection \<open>The device handle\<close>

lemma handle_step_simps [simp]:
  "handle_step b (Call_fprintf s xs) = b"
  "handle_step b (Call_usleep w) = b"
  "handle_step b (Call_libusb_control_transfer r) = b"
  "handle_step b (Call_dfuload_do_dnload n) = b"
  "handle_step b Call_libusb_close = False"
  "handle_step b Call_libusb_exit = b"
  "handle_step b Call_libusb_init = b"
  "handle_step b Call_dfu_load_file = b"
  "handle_step b Call_probe_devices = b"
  "handle_step b Call_libusb_claim_interface = b"
  "handle_step b Call_libusb_set_interface_alt_setting = b"
  "handle_step b (Call_errx s) = b"
  "handle_step b (Call_libusb_open ret h) = (if ret = 0 \<and> h \<noteq> None then True else b)"
  by (simp_all add: handle_step_def)

lemma handle_get_status [simp]:
  "foldl handle_step b (snd (snd (dfu_get_status q e root tr))) = foldl handle_step b tr"
  by (simp add: dfu_get_status_def Let_def split: prod.splits)

lemma handle_clear_status [simp]:
  "foldl handle_step b (snd (dfu_clear_status e root tr)) = foldl handle_step b tr"
  by (simp add: dfu_clear_status_def Let_def)

lemma handle_abort [simp]:
  "foldl handle_step b (snd (dfu_abort e root tr)) = foldl handle_step b tr"
  by (simp add: dfu_abort_def Let_def)

lemma status_again_handle:
  "status_again q e root tr = Some y \<Longrightarrow>
     foldl handle_step b (snd (snd y)) = foldl handle_step b tr"
proof (induct rule: status_again.raw_induct [rotated, consumes 1, case_names step])
  case (step rec q e root tr y)
  note body = step.hyps(2) and IH = step.hyps(1)
  obtain r0 s0 t1 where gs: "dfu_get_status q e root tr = (r0, s0, t1)"
    by (cases "dfu_get_status q e root tr") auto
  define t3 where "t3 =
    (if r0 < 0 then t1 @ [Call_fprintf ''error get_status: %s'' [r0]] else t1) @
      [Call_usleep (bwPollTimeout s0 * 1000)]"
  have t3: "foldl handle_step b t3 = foldl handle_step b tr"
    using handle_get_status [of b q e root tr] gs by (simp add: t3_def)
  obtain rc tc where cs: "dfu_clear_status e root t3 = (rc, tc)"
    by force
  have tc: "foldl handle_step b tc = foldl handle_step b tr"
    using handle_clear_status [of b e root t3] cs t3 by simp
  obtain ra ta where ab: "dfu_abort e root t3 = (ra, ta)"
    by force
  have ta: "foldl handle_step b ta = foldl handle_step b tr"
    using handle_abort [of b e root t3] ab t3 by simp
  consider (runtime) "bState s0 = DFU_STATE_appIDLE \<or> bState s0 = DFU_STATE_appDETACH"
    | (error) "\<not> (bState s0 = DFU_STATE_appIDLE \<or> bState s0 = DFU_STATE_appDETACH)"
        "bState s0 = DFU_STATE_dfuERROR"
    | (stale) "\<not> (bState s0 = DFU_STATE_appIDLE \<or> bState s0 = DFU_STATE_appDETACH)"
        "bState s0 \<noteq> DFU_STATE_dfuERROR"
        "bState s0 = DFU_STATE_dfuDNLOAD_IDLE \<or> bState s0 = DFU_STATE_dfuUPLOAD_IDLE"
    | (other) "\<not> (bState s0 = DFU_STATE_appIDLE \<or> bState s0 = DFU_STATE_appDETACH)"
        "bState s0 \<noteq> DFU_STATE_dfuERROR"
        "\<not> (bState s0 = DFU_STATE_dfuDNLOAD_IDLE \<or> bState s0 = DFU_STATE_dfuUPLOAD_IDLE)"
    by blast
  then show ?case
  proof cases
    case runtime
    with body gs have "y = (r0, s0, t3 @ [Call_fprintf ''Device still in Runtime Mode!'' []])"
      by (auto simp: Let_def t3_def)
    with t3 show ?thesis by simp
  next
    case error
    with body gs cs
    have "rec q e root (if rc < 0 then tc @ [Call_fprintf ''error clear_status'' []] else tc)
            = Some y"
      by (simp add: Let_def t3_def [symmetric])
    from IH [OF this] tc show ?thesis
      by (simp split: if_splits)
  next
    case stale
    with body gs ab
    have "rec q e root (if ra < 0 then ta @ [Call_fprintf ''can't send DFU_ABORT'' []] else ta)
            = Some y"
      by (simp add: Let_def t3_def [symmetric])
    from IH [OF this] ta show ?thesis
      by (simp split: if_splits)
  next
    case other
    with body gs have "y = (r0, s0, t3)"
      by (auto simp: Let_def t3_def)
    with t3 show ?thesis by simp
  qed
qed

lemma flash_after_poll_closed:
  "flash_after_poll q e root g ret st tr = (out, g', tr') \<Longrightarrow>
     (\<exists>r fin. out = Returned r fin) \<and> \<not> handle_open tr'"
  by (auto simp: flash_after_poll_def flash_out_def handle_open_def Let_def
      split: prod.splits if_splits)

text \<open>
  The two fatal paths after a successful open, for every environment: the run ends in
  \<^verbatim>\<open>errx\<close> right after the failing call, and the handle that \<^verbatim>\<open>libusb_open\<close> stored is
  still in \<^verbatim>\<open>dfu_root\<close>.
\<close>

lemma dfu_flash_returned_or_exited:
  assumes "dfu_flash q e g fd = Some (out, g', tr)"
  shows "case out of
           Returned ret fin \<Rightarrow> \<not> handle_open tr
         | Exited code \<Rightarrow>
             handle_open tr = (fst (libusb_open e) = 0 \<and> snd (libusb_open e) \<noteq> None)"
  using assms unfolding dfu_flash_def Let_def
  by (auto simp: flash_out_def handle_open_def
      split: list.splits prod.splits if_splits option.splits
      dest!: flash_after_poll_closed status_again_handle [where b = False])

lemma dfu_flash_claim_failure:
  assumes "device_opens e g fd root h" and "libusb_claim_interface e < 0"
  shows "\<exists>g2. dfu_flash q e g fd =
           Some (Exited EX_IOERR, g2,
             [Call_libusb_init, Call_dfu_load_file, Call_probe_devices,
              Call_libusb_open 0 (Some h), Call_libusb_claim_interface,
              Call_errx ''Cannot claim interface - %s'']) \<and>
           dfu_root g2 = [root\<lparr>dev_handle := Some h\<rparr>]"
  using assms unfolding device_opens_def dfu_flash_def Let_def
  by auto

lemma dfu_flash_alt_setting_failure:
  assumes "device_opens e g fd root h" and "0 \<le> libusb_claim_interface e"
    and "libusb_set_interface_alt_setting e < 0"
  shows "\<exists>g2. dfu_flash q e g fd =
           Some (Exited EX_IOERR, g2,
             [Call_libusb_init, Call_dfu_load_file, Call_probe_devices,
              Call_libusb_open 0 (Some h), Call_libusb_claim_interface,
              Call_libusb_set_interface_alt_setting,
              Call_errx ''Cannot set alternate interface: %s'']) \<and>
           dfu_root g2 = [root\<lparr>dev_handle := Some h\<rparr>]"
  using assms unfolding device_opens_def dfu_flash_def Let_def
  by auto

lemma handle_open_after_failed_setup:
  "handle_open
     [Call_libusb_init, Call_dfu_load_file, Call_probe_devices,
      Call_libusb_open 0 (Some h), Call_libusb_claim_interface,
      Call_errx ''Cannot claim interface - %s'']"
  "handle_open
     [Call_libusb_init, Call_dfu_load_file, Call_probe_devices,
      Call_libusb_open 0 (Some h), Call_libusb_claim_interface,
      Call_libusb_set_interface_alt_setting,
      Call_errx ''Cannot set alternate interface: %s'']"
  by (simp_all add: handle_open_def)

text \<open>
  C4, as the source has it: whenever \<^verbatim>\<open>dfu_flash\<close> returns to its caller, no device handle
  is open: either none was opened or \<^verbatim>\<open>libusb_close\<close> was called after the download.
  Whenever \<^verbatim>\<open>errx\<close> ends the process instead, the handle is open exactly when
  \<^verbatim>\<open>libusb_open\<close> had succeeded. And that is what happens on the two fatal paths after
  a successful open: when claiming the interface fails, and when the claim succeeds and
  selecting the alternate setting fails, \<^verbatim>\<open>dfu_flash\<close> ends in \<^verbatim>\<open>errx\<close> with exit status
  \<^verbatim>\<open>EX_IOERR\<close> right after the failing call, the handle is open, and \<^verbatim>\<open>libusb_close\<close> has
  not been called.
\<close>

theorem dfu_flash_handle_teardown:
  "(dfu_flash q e g fd = Some (out, g', tr) \<longrightarrow>
      (case out of
         Returned ret fin \<Rightarrow> \<not> handle_open tr
       | Exited code \<Rightarrow>
           handle_open tr = (fst (libusb_open e) = 0 \<and> snd (libusb_open e) \<noteq> None))) \<and>
   (device_opens e g fd root h \<and> libusb_claim_interface e < 0 \<longrightarrow>
      (\<exists>g2 tr2.
         dfu_flash q e g fd = Some (Exited EX_IOERR, g2, tr2) \<and>
         tr2 = [Call_libusb_init, Call_dfu_load_file, Call_probe_devices,
                Call_libusb_open 0 (Some h), Call_libusb_claim_interface,
                Call_errx ''Cannot claim interface - %s''] \<and>
         dfu_root g2 = [root\<lparr>dev_handle := Some h\<rparr>] \<and>
         handle_open tr2 \<and> Call_libusb_close \<notin> set tr2)) \<and>
   (device_opens e g fd root h \<and> 0 \<le> libusb_claim_interface e \<and>
    libusb_set_interface_alt_setting e < 0 \<longrightarrow>
      (\<exists>g2 tr2.
         dfu_flash q e g fd = Some (Exited EX_IOERR, g2, tr2) \<and>
         tr2 = [Call_libusb_init, Call_dfu_load_file, Call_probe_devices,
                Call_libusb_open 0 (Some h), Call_libusb_claim_interface,
                Call_libusb_set_interface_alt_setting,
                Call_errx ''Cannot set alternate interface: %s''] \<and>
         dfu_root g2 = [root\<lparr>dev_handle := Some h\<rparr>] \<and>
         handle_open tr2 \<and> Call_libusb_close \<notin> set tr2))"
proof (intro conjI impI)
  assume "dfu_flash q e g fd = Some (out, g', tr)"
  then show "case out of
               Returned ret fin \<Rightarrow> \<not> handle_open tr
             | Exited code \<Rightarrow>
                 handle_open tr = (fst (libusb_open e) = 0 \<and> snd (libusb_open e) \<noteq> None)"
    by (rule dfu_flash_returned_or_exited)
next
  assume "device_opens e g fd root h \<and> libusb_claim_interface e < 0"
  then obtain g2 where "dfu_flash q e g fd =
           Some (Exited EX_IOERR, g2,
             [Call_libusb_init, Call_dfu_load_file, Call_probe_devices,
              Call_libusb_open 0 (Some h), Call_libusb_claim_interface,
              Call_errx ''Cannot claim interface - %s''])"
    and "dfu_root g2 = [root\<lparr>dev_handle := Some h\<rparr>]"
    using dfu_flash_claim_failure [of e g fd root h q] by blast
  with handle_open_after_failed_setup (1) [of h]
  show "\<exists>g2 tr2.
         dfu_flash q e g fd = Some (Exited EX_IOERR, g2, tr2) \<and>
         tr2 = [Call_libusb_init, Call_dfu_load_file, Call_probe_devices,
                Call_libusb_open 0 (Some h), Call_libusb_claim_interface,
                Call_errx ''Cannot claim interface - %s''] \<and>
         dfu_root g2 = [root\<lparr>dev_handle := Some h\<rparr>] \<and>
         handle_open tr2 \<and> Call_libusb_close \<notin> set tr2"
    by simp
next
  assume "device_opens e g fd root h \<and> 0 \<le> libusb_claim_interface e \<and>
    libusb_set_interface_alt_setting e < 0"
  then obtain g2 where "dfu_flash q e g fd =
           Some (Exited EX_IOERR, g2,
             [Call_libusb_init, Call_dfu_load_file, Call_probe_devices,
              Call_libusb_open 0 (Some h), Call_libusb_claim_interface,
              Call_libusb_set_interface_alt_setting,
              Call_errx ''Cannot set alternate interface: %s''])"
    and "dfu_root g2 = [root\<lparr>dev_handle := Some h\<rparr>]"
    using dfu_flash_alt_setting_failure [of e g fd root h q] by blast
  with handle_open_after_failed_setup (2) [of h]
  show "\<exists>g2 tr2.
         dfu_flash q e g fd = Some (Exited EX_IOERR, g2, tr2) \<and>
         tr2 = [Call_libusb_init, Call_dfu_load_file, Call_probe_devices,
                Call_libusb_open 0 (Some h), Call_libusb_claim_interface,
                Call_libusb_set_interface_alt_setting,
                Call_errx ''Cannot set alternate interface: %s''] \<and>
         dfu_root g2 = [root\<lparr>dev_handle := Some h\<rparr>] \<and>
         handle_open tr2 \<and> Call_libusb_close \<notin> set tr2"
    by simp
qed

text \<open>
  A complete run on a device in dfu-idle (opened, polled once, downloaded, closed), a run
  where selecting the alternate setting fails, and a run where claiming the interface fails.
\<close>

theorem dfu_flash_handle_teardown_witness:
  "dfu_flash sample_quirks (sample_env 0 2) sample_globals 3 =
     Some (Returned 6 (- 1),
       \<lparr>match_vendor = 0x0483, match_product = 0xdf11, dfu_root = [sample_if]\<rparr>,
       [Call_libusb_init, Call_dfu_load_file, Call_probe_devices,
        Call_libusb_open 0 (Some 1), Call_libusb_claim_interface,
        Call_libusb_set_interface_alt_setting,
        Call_libusb_control_transfer (get_status_request sample_if),
        Call_usleep 0, Call_dfuload_do_dnload 2048, Call_libusb_close, Call_libusb_exit]) \<and>
   \<not> handle_open
       [Call_libusb_init, Call_dfu_load_file, Call_probe_devices,
        Call_libusb_open 0 (Some 1), Call_libusb_claim_interface,
        Call_libusb_set_interface_alt_setting,
        Call_libusb_control_transfer (get_status_request sample_if),
        Call_usleep 0, Call_dfuload_do_dnload 2048, Call_libusb_close, Call_libusb_exit] \<and>
   (\<exists>g2 tr2.
      dfu_flash sample_quirks (sample_env 0 2\<lparr>libusb_set_interface_alt_setting := - 1\<rparr>)
        sample_globals 3 = Some (Exited EX_IOERR, g2, tr2) \<and>
      tr2 = [Call_libusb_init, Call_dfu_load_file, Call_probe_devices,
             Call_libusb_open 0 (Some 1), Call_libusb_claim_interface,
             Call_libusb_set_interface_alt_setting,
             Call_errx ''Cannot set alternate interface: %s''] \<and>
      dfu_root g2 = [sample_if\<lparr>dev_handle := Some 1\<rparr>] \<and>
      handle_open tr2 \<and> Call_libusb_close \<notin> set tr2) \<and>
   (\<exists>g2 tr2.
      dfu_flash sample_quirks (sample_env 0 2\<lparr>libusb_claim_interface := - 4\<rparr>)
        sample_globals 3 = Some (Exited EX_IOERR, g2, tr2) \<and>
      tr2 = [Call_libusb_init, Call_dfu_load_file, Call_probe_devices,
             Call_libusb_open 0 (Some 1), Call_libusb_claim_interface,
             Call_errx ''Cannot claim interface - %s''] \<and>
      dfu_root g2 = [sample_if\<lparr>dev_handle := Some 1\<rparr>] \<and>
      handle_open tr2 \<and> Call_libusb_close \<notin> set tr2)"
proof -
  let ?alt = "sample_env 0 2\<lparr>libusb_set_interface_alt_setting := - 1\<rparr>"
  let ?claim = "sample_env 0 2\<lparr>libusb_claim_interface := - 4\<rparr>"
  have run: "dfu_flash sample_quirks (sample_env 0 2) sample_globals 3 =
     Some (Returned 6 (- 1),
       \<lparr>match_vendor = 0x0483, match_product = 0xdf11, dfu_root = [sample_if]\<rparr>,
       [Call_libusb_init, Call_dfu_load_file, Call_probe_devices,
        Call_libusb_open 0 (Some 1), Call_libusb_claim_interface,
        Call_libusb_set_interface_alt_setting,
        Call_libusb_control_transfer (get_status_request sample_if),
        Call_usleep 0, Call_dfuload_do_dnload 2048, Call_libusb_close, Call_libusb_exit])"
    apply (simp add: flash_defs sample_defs Let_def)
    apply (subst status_again.simps)
    apply (simp add: flash_defs sample_defs codec_defs DFU_STATE_defs DFU_STATUS_defs Let_def)
    done
  have a: "device_opens ?alt sample_globals 3 sample_if 1 \<and> 0 \<le> libusb_claim_interface ?alt \<and>
           libusb_set_interface_alt_setting ?alt < 0"
    by (simp add: device_opens_def sample_defs adopt_file_ids_def Let_def)
  have c: "device_opens ?claim sample_globals 3 sample_if 1 \<and> libusb_claim_interface ?claim < 0"
    by (simp add: device_opens_def sample_defs adopt_file_ids_def Let_def)
  note t = dfu_flash_handle_teardown
  from t [of sample_quirks "sample_env 0 2" sample_globals 3, THEN conjunct1, rule_format, OF run]
  have closed: "\<not> handle_open
       [Call_libusb_init, Call_dfu_load_file, Call_probe_devices,
        Call_libusb_open 0 (Some 1), Call_libusb_claim_interface,
        Call_libusb_set_interface_alt_setting,
        Call_libusb_control_transfer (get_status_request sample_if),
        Call_usleep 0, Call_dfuload_do_dnload 2048, Call_libusb_close, Call_libusb_exit]"
    by simp
  from t [of sample_quirks ?alt sample_globals 3 _ _ _ sample_if 1,
      THEN conjunct2, THEN conjunct2, rule_format, OF a]
  have alt: "\<exists>g2 tr2.
      dfu_flash sample_quirks ?alt sample_globals 3 = Some (Exited EX_IOERR, g2, tr2) \<and>
      tr2 = [Call_libusb_init, Call_dfu_load_file, Call_probe_devices,
             Call_libusb_open 0 (Some 1), Call_libusb_claim_interface,
             Call_libusb_set_interface_alt_setting,
             Call_errx ''Cannot set alternate interface: %s''] \<and>
      dfu_root g2 = [sample_if\<lparr>dev_handle := Some 1\<rparr>] \<and>
      handle_open tr2 \<and> Call_libusb_close \<notin> set tr2"
    by simp
  from t [of sample_quirks ?claim sample_globals 3 _ _ _ sample_if 1,
      THEN conjunct2, THEN conjunct1, rule_format, OF c]
  have claim: "\<exists>g2 tr2.
      dfu_flash sample_quirks ?claim sample_globals 3 = Some (Exited EX_IOERR, g2, tr2) \<and>
      tr2 = [Call_libusb_init, Call_dfu_load_file, Call_probe_devices,
             Call_libusb_open 0 (Some 1), Call_libusb_claim_interface,
             Call_errx ''Cannot claim interface - %s''] \<and>
      dfu_root g2 = [sample_if\<lparr>dev_handle := Some 1\<rparr>] \<and>
      handle_open tr2 \<and> Call_libusb_close \<notin> set tr2"
    by simp
  from run closed alt claim show ?thesis
    by (intro conjI)
qed

text \<open>
  C4, as the spec words it, on the path where the device opens and claiming the interface
  fails: \<^verbatim>\<open>errx\<close> ends the process, and \<^verbatim>\<open>libusb_close\<close> has not been called. The handle
  is open at the end of the run.
\<close>

theorem dfu_flash_claim_failure_leaves_handle_open:
  "dfu_flash sample_quirks (sample_env 0 2\<lparr>libusb_claim_interface := - 1\<rparr>) sample_globals 3 =
     Some (Exited EX_IOERR,
       \<lparr>match_vendor = 0x0483, match_product = 0xdf11,
          dfu_root = [sample_if\<lparr>dev_handle := Some 1\<rparr>]\<rparr>,
       [Call_libusb_init, Call_dfu_load_file, Call_probe_devices,
        Call_libusb_open 0 (Some 1), Call_libusb_claim_interface,
        Call_errx ''Cannot claim interface - %s'']) \<and>
   handle_open
       [Call_libusb_init, Call_dfu_load_file, Call_probe_devices,
        Call_libusb_open 0 (Some 1), Call_libusb_claim_interface,
        Call_errx ''Cannot claim interface - %s'']"
  by (simp add: flash_defs sample_defs Let_def handle_open_def handle_step_def)

subsection \<open>The poll loop has no retry cap\<close>

lemma is_request_simps [simp]:
  "is_request c (Call_libusb_control_transfer r) = (bRequest r = c)"
  "is_request c (Call_fprintf s xs) = False"
  "is_request c (Call_usleep w) = False"
  by (simp_all add: is_request_def)

lemma polls_get_status [simp]:
  "polls (snd (snd (dfu_get_status q e root tr))) = Suc (polls tr)"
  by (simp add: polls_def dfu_get_status_def get_status_request_def Let_def split: prod.splits)

lemma clears_get_status [simp]:
  "clears (snd (snd (dfu_get_status q e root tr))) = clears tr"
  by (simp add: clears_def dfu_get_status_def get_status_request_def Let_def
      DFU_GETSTATUS_def DFU_CLRSTATUS_def split: prod.splits)

lemma polls_clear_status [simp]:
  "polls (snd (dfu_clear_status e root tr)) = polls tr"
  by (simp add: polls_def dfu_clear_status_def Let_def DFU_GETSTATUS_def DFU_CLRSTATUS_def)

lemma clears_clear_status [simp]:
  "clears (snd (dfu_clear_status e root tr)) = Suc (clears tr)"
  by (simp add: clears_def dfu_clear_status_def Let_def)

lemma polls_append_other [simp]:
  "polls (tr @ [Call_fprintf s xs]) = polls tr"
  "polls (tr @ [Call_usleep w]) = polls tr"
  "clears (tr @ [Call_fprintf s xs]) = clears tr"
  "clears (tr @ [Call_usleep w]) = clears tr"
  by (simp_all add: polls_def clears_def)

lemma status_again_error_step:
  assumes "observed_state q e root tr = DFU_STATE_dfuERROR"
  shows "\<exists>tr5. status_again q e root tr = status_again q e root tr5 \<and>
           polls tr5 = Suc (polls tr) \<and> clears tr5 = Suc (clears tr)"
proof -
  obtain r0 s0 t1 where gs: "dfu_get_status q e root tr = (r0, s0, t1)"
    using prod_cases3 by blast
  define t3 where "t3 =
    (if r0 < 0 then t1 @ [Call_fprintf ''error get_status: %s'' [r0]] else t1) @
      [Call_usleep (bwPollTimeout s0 * 1000)]"
  obtain rc tc where cs: "dfu_clear_status e root t3 = (rc, tc)"
    by force
  define t5 where "t5 = (if rc < 0 then tc @ [Call_fprintf ''error clear_status'' []] else tc)"
  have st: "bState s0 = DFU_STATE_dfuERROR"
    using assms gs by (simp add: observed_state_def)
  have p1: "polls t1 = Suc (polls tr)" and c1: "clears t1 = clears tr"
    using polls_get_status [of q e root tr] clears_get_status [of q e root tr] gs by simp_all
  then have p3: "polls t3 = Suc (polls tr)" and c3: "clears t3 = clears tr"
    by (simp_all add: t3_def)
  have "polls tc = polls t3" and "clears tc = Suc (clears t3)"
    using polls_clear_status [of e root t3] clears_clear_status [of e root t3] cs by simp_all
  with p3 c3 have p5: "polls t5 = Suc (polls tr)" and c5: "clears t5 = Suc (clears tr)"
    by (simp_all add: t5_def)
  have "status_again q e root tr = status_again q e root t5"
    using gs cs st
    by (subst status_again.simps) (simp add: Let_def t3_def [symmetric] t5_def DFU_STATE_defs)
  with p5 c5 show ?thesis by blast
qed

lemma status_again_idle_step:
  assumes "observed_state q e root tr = DFU_STATE_dfuIDLE"
  shows "\<exists>ret st tr3. status_again q e root tr = Some (ret, st, tr3) \<and>
           bState st = DFU_STATE_dfuIDLE \<and> clears tr3 = clears tr"
proof -
  obtain r0 s0 t1 where gs: "dfu_get_status q e root tr = (r0, s0, t1)"
    using prod_cases3 by blast
  have st: "bState s0 = DFU_STATE_dfuIDLE"
    using assms gs by (simp add: observed_state_def)
  have c1: "clears t1 = clears tr"
    using clears_get_status [of q e root tr] gs by simp
  show ?thesis
    using gs st c1
    by (subst status_again.simps) (simp add: Let_def DFU_STATE_defs)
qed

lemma status_again_retries:
  assumes err: "\<And>tr. polls tr < k \<Longrightarrow> observed_state q e root tr = DFU_STATE_dfuERROR"
    and idle: "\<And>tr. polls tr = k \<Longrightarrow> observed_state q e root tr = DFU_STATE_dfuIDLE"
  shows "polls tr \<le> k \<Longrightarrow>
     \<exists>ret st tr'. status_again q e root tr = Some (ret, st, tr') \<and>
        bState st = DFU_STATE_dfuIDLE \<and> clears tr' = clears tr + (k - polls tr)"
proof (induction "k - polls tr" arbitrary: tr)
  case 0
  then have "polls tr = k" by simp
  from status_again_idle_step [OF idle [OF this]] 0 show ?case
    by simp
next
  case (Suc n)
  then have "polls tr < k" by simp
  from status_again_error_step [OF err [OF this]]
  obtain tr5 where tr5: "status_again q e root tr = status_again q e root tr5"
    "polls tr5 = Suc (polls tr)" "clears tr5 = Suc (clears tr)"
    by blast
  have "n = k - polls tr5" and "polls tr5 \<le> k"
    using Suc.hyps(2) tr5(2) by simp_all
  from Suc.hyps(1) [OF this] tr5 Suc.hyps(2) show ?case
    by auto
qed

lemma status_again_diverges:
  assumes "\<And>tr. observed_state q e root tr = DFU_STATE_dfuERROR"
  shows "status_again q e root tr = None"
proof -
  have "False" if "status_again q' e' root' tr = Some y" "q' = q" "e' = e" "root' = root"
    for q' e' root' y
    using that
  proof (induct rule: status_again.raw_induct [rotated, consumes 1, case_names step])
    case (step rec q' e' root' tr y)
    from step.hyps(2) assms [of tr] step.prems show ?case
      by (auto simp: Let_def observed_state_def DFU_STATE_defs split: prod.splits if_splits
          dest: step.hyps(1))
  qed
  then show ?thesis by (cases "status_again q e root tr") auto
qed

text \<open>
  C2, as the source has it: the poll loop counts nothing. Against a device that reports
  dfu-error on its first \<open>k\<close> polls and dfu-idle on the next, it issues exactly \<open>k\<close>
  CLRSTATUS requests and then ends with state dfu-idle, for every \<open>k\<close>. Against a device
  whose every poll decodes to dfu-error (a device that fails every transfer is one: the
  default record has state dfu-error) it never ends.
\<close>

theorem status_again_no_retry_cap:
  "((\<forall>tr. polls tr < k \<longrightarrow> observed_state q e root tr = DFU_STATE_dfuERROR) \<and>
    (\<forall>tr. polls tr = k \<longrightarrow> observed_state q e root tr = DFU_STATE_dfuIDLE) \<longrightarrow>
      (\<exists>ret st tr'. status_again q e root [] = Some (ret, st, tr') \<and>
         bState st = DFU_STATE_dfuIDLE \<and> clears tr' = k)) \<and>
   ((\<forall>tr. observed_state q e root tr = DFU_STATE_dfuERROR) \<longrightarrow>
      status_again q e root tr0 = None)"
proof (intro conjI impI)
  assume h: "(\<forall>tr. polls tr < k \<longrightarrow> observed_state q e root tr = DFU_STATE_dfuERROR) \<and>
    (\<forall>tr. polls tr = k \<longrightarrow> observed_state q e root tr = DFU_STATE_dfuIDLE)"
  have "polls [] \<le> k" by (simp add: polls_def)
  from status_again_retries [of k q e root "[]", OF _ _ this] h
  show "\<exists>ret st tr'. status_again q e root [] = Some (ret, st, tr') \<and>
         bState st = DFU_STATE_dfuIDLE \<and> clears tr' = k"
    by (simp add: polls_def clears_def)
next
  assume "\<forall>tr. observed_state q e root tr = DFU_STATE_dfuERROR"
  then show "status_again q e root tr0 = None"
    by (simp add: status_again_diverges)
qed

text \<open>
  Three polls in dfu-error before dfu-idle: three CLRSTATUS. Dfu-error for ever: no result.
\<close>

theorem status_again_no_retry_cap_witness:
  "(\<exists>ret st tr'.
      status_again sample_quirks
        (sample_env 0 0\<lparr>libusb_control_transfer := recovering_device 3\<rparr>) sample_if [] =
        Some (ret, st, tr') \<and>
      bState st = DFU_STATE_dfuIDLE \<and> clears tr' = 3) \<and>
   status_again sample_quirks (sample_env 14 10) sample_if [] = None"
proof -
  let ?e = "sample_env 0 0\<lparr>libusb_control_transfer := recovering_device 3\<rparr>"
  have a: "(\<forall>tr. polls tr < 3 \<longrightarrow>
              observed_state sample_quirks ?e sample_if tr = DFU_STATE_dfuERROR) \<and>
           (\<forall>tr. polls tr = 3 \<longrightarrow>
              observed_state sample_quirks ?e sample_if tr = DFU_STATE_dfuIDLE)"
    by (simp add: observed_state_recovering_device DFU_STATE_defs)
  have b: "\<forall>tr. observed_state sample_quirks (sample_env 14 10) sample_if tr =
             DFU_STATE_dfuERROR"
    by (simp add: observed_state_fixed_device DFU_STATE_defs)
  from status_again_no_retry_cap [of 3 sample_quirks ?e sample_if]
    status_again_no_retry_cap [of 3 sample_quirks "sample_env 14 10" sample_if "[]"] a b
  show ?thesis
    by blast
qed

text \<open>
  C2, as the spec words it: a cap on the retries would end the loop with an error. Against
  a device that reports dfu-error on every poll, \<^verbatim>\<open>dfu_flash\<close> has no outcome at all.
\<close>

theorem dfu_flash_faulted_device_never_returns:
  "dfu_flash sample_quirks (sample_env 14 10) sample_globals 3 = None"
proof -
  have "observed_state sample_quirks (sample_env 14 10) (sample_if\<lparr>dev_handle := Some 1\<rparr>) tr
          = DFU_STATE_dfuERROR" for tr
    by (simp add: observed_state_fixed_device DFU_STATE_defs)
  then have "status_again sample_quirks (sample_env 14 10) (sample_if\<lparr>dev_handle := Some 1\<rparr>)
               tr = None" for tr
    by (rule status_again_diverges)
  then show ?thesis
    by (simp add: flash_defs sample_env_def sample_globals_def sample_file_def sample_if_def
        Let_def)
qed

end
